theory Spec2Isabelle
  imports Main "HOL-Library.Word" "HOL-Library.Monad_Syntax"
begin

section \<open>The ESPino32 OTA demo sketch\<close>

text \<open>
  A shallow embedding of \<^verbatim>\<open>ESPino32_OTA_Demo/src/main.cpp\<close>. The sketch owns two global
  flags and talks to three collaborators that are not part of it: the serial port and the
  board (\<^verbatim>\<open>Serial\<close>, \<^verbatim>\<open>delay\<close>, \<^verbatim>\<open>digitalWrite\<close>, \<^verbatim>\<open>esp_restart\<close>), the WiFi driver
  (\<^verbatim>\<open>WiFi.begin\<close>, \<^verbatim>\<open>WiFi.status\<close>) and the ThingsBoard client \<^verbatim>\<open>tb\<close>. Every call into a
  collaborator is recorded, in program order, in a trace kept beside the flags; what a
  collaborator answers is an input of the model.
\<close>

subsection \<open>Constants (lines 8 to 40)\<close>

definition CURRENT_FIRMWARE_TITLE :: string where
  "CURRENT_FIRMWARE_TITLE = ''ESPino32''"

definition CURRENT_FIRMWARE_VERSION :: string where
  "CURRENT_FIRMWARE_VERSION = ''1.0.0''"

definition FW_STATE_UPDATED :: string where
  "FW_STATE_UPDATED = ''UPDATED''"

definition FIRMWARE_FAILURE_RETRIES :: "8 word" where
  "FIRMWARE_FAILURE_RETRIES = 5"

definition FIRMWARE_PACKET_SIZE :: "16 word" where
  "FIRMWARE_PACKET_SIZE = 4096"

definition WIFI_SSID :: string where
  "WIFI_SSID = ''YOUR_WIFI_SSID''"

definition WIFI_PASSWORD :: string where
  "WIFI_PASSWORD = ''YOUR_WIFI_PASSWORD''"

definition TOKEN :: string where
  "TOKEN = ''YOUR_DEVICE_ACCESS_TOKEN''"

definition TONYSPACE_SERVER :: string where
  "TONYSPACE_SERVER = ''vsmqtt.space''"

definition TONYSPACE_PORT :: "16 word" where
  "TONYSPACE_PORT = 8080"

definition MAX_MESSAGE_SIZE :: "32 word" where
  "MAX_MESSAGE_SIZE = 512"

definition SERIAL_DEBUG_BAUD :: "32 word" where
  "SERIAL_DEBUG_BAUD = 115200"

subsection \<open>Types of the collaborators\<close>

text \<open>
  \<^verbatim>\<open>wl_status_t\<close> is declared by the WiFi library, not by the sketch. The sketch names
  one value of it, \<^verbatim>\<open>WL_CONNECTED\<close>, and compares every status with that one; the other
  values are the library's, and nothing below depends on which they are.
\<close>

datatype wl_status_t =
    WL_NO_SHIELD
  | WL_IDLE_STATUS
  | WL_NO_SSID_AVAIL
  | WL_SCAN_COMPLETED
  | WL_CONNECTED
  | WL_CONNECT_FAILED
  | WL_CONNECTION_LOST
  | WL_DISCONNECTED

datatype pin = LED_BUILTIN

datatype pin_mode = OUTPUT

datatype level = LOW | HIGH

text \<open>The two functions of the sketch whose addresses are handed to the client.\<close>

datatype handler = progressCallback_ptr | updatedCallback_ptr

text \<open>
  \<^verbatim>\<open>OTA_Update_Callback\<close> holds the six constructor arguments of line 58, in their order.
\<close>

record OTA_Update_Callback =
  cb_progress :: handler
  cb_updated :: handler
  cb_title :: string
  cb_version :: string
  cb_retries :: "8 word"
  cb_packet_size :: "16 word"

definition callback :: OTA_Update_Callback where
  "callback =
     \<lparr>cb_progress = progressCallback_ptr, cb_updated = updatedCallback_ptr,
      cb_title = CURRENT_FIRMWARE_TITLE, cb_version = CURRENT_FIRMWARE_VERSION,
      cb_retries = FIRMWARE_FAILURE_RETRIES, cb_packet_size = FIRMWARE_PACKET_SIZE\<rparr>"

subsection \<open>Traces\<close>

text \<open>
  One constructor for each call the sketch makes outside itself. A call that returns a value
  the sketch reads carries that value as its last argument. \<open>Serial_printf\<close> keeps the format
  and its string arguments apart; \<open>Serial_printf_ratio\<close> is the call of line 131, whose
  argument is the float quotient of the two 32-bit numbers given, left undivided.
\<close>

datatype event =
    Serial_begin "32 word"
  | Serial_print string
  | Serial_println string
  | Serial_printf string "string list"
  | Serial_printf_ratio string "32 word" "32 word"
  | Delay nat
  | PinMode pin pin_mode
  | DigitalWrite pin level
  | WiFi_begin string string
  | WiFi_status wl_status_t
  | Tb_connected bool
  | Tb_connect string string "16 word" bool
  | Firmware_Send_Info string string bool
  | Firmware_Send_State string bool
  | Subscribe_Firmware_Update OTA_Update_Callback bool
  | Tb_loop
  | Esp_restart

text \<open>The globals of lines 49 and 50, and the trace.\<close>

record sketch =
  currentFWSent :: bool
  updateRequestSent :: bool
  trace :: "event list"

definition boot :: sketch where
  "boot = \<lparr>currentFWSent = False, updateRequestSent = False, trace = []\<rparr>"

definition emits :: "event list \<Rightarrow> sketch \<Rightarrow> sketch" where
  "emits evs s = s\<lparr>trace := trace s @ evs\<rparr>"

definition emit :: "event \<Rightarrow> sketch \<Rightarrow> sketch" where
  "emit ev s = emits [ev] s"

text \<open>
  \<^verbatim>\<open>esp_restart()\<close> does not return: a function that reaches it ends in \<open>Restarted\<close>, and
  so does every caller above it.
\<close>

datatype outcome = Returned sketch | Restarted sketch

fun final :: "outcome \<Rightarrow> sketch" where
  "final (Returned s) = s"
| "final (Restarted s) = s"

fun is_Restarted :: "outcome \<Rightarrow> bool" where
  "is_Restarted (Restarted s) = True"
| "is_Restarted (Returned s) = False"

subsection \<open>What the collaborators answer during one call of \<^verbatim>\<open>loop\<close>\<close>

text \<open>
  \<open>WiFi_status_ret k\<close> is the value of the \<open>k\<close>-th call of \<^verbatim>\<open>WiFi.status()\<close> made during
  this call of \<^verbatim>\<open>loop\<close> (counted from 0). Every method of \<^verbatim>\<open>tb\<close> is called at most once in
  a call of \<^verbatim>\<open>loop\<close>, so one answer for each is enough. \<open>tb_loop_calls\<close> lists the callbacks
  that \<^verbatim>\<open>tb.loop()\<close> invokes, in order.
\<close>

datatype callback_call = Progress "32 word" "32 word" | Updated bool

record env =
  WiFi_status_ret :: "nat \<Rightarrow> wl_status_t"
  Tb_connected_ret :: bool
  Tb_connect_ret :: bool
  Firmware_Send_Info_ret :: bool
  Firmware_Send_State_ret :: bool
  Subscribe_Firmware_Update_ret :: bool
  tb_loop_calls :: "callback_call list"

subsection \<open>The callbacks (lines 121 to 132)\<close>

definition updatedCallback :: "bool \<Rightarrow> sketch \<Rightarrow> outcome" where
  "updatedCallback success s =
     (if success
      then Restarted (emits [Serial_println ''Done, Reboot now'', Esp_restart] s)
      else Returned (emit (Serial_println ''Downloading firmware failed'') s))"

definition progressCallback :: "32 word \<Rightarrow> 32 word \<Rightarrow> sketch \<Rightarrow> sketch" where
  "progressCallback currentChunk totalChuncks s =
     emit (Serial_printf_ratio ''Progress %.2f%%\<newline>'' (currentChunk * 100) totalChuncks) s"

subsection \<open>The heartbeat (lines 134 to 139)\<close>

definition blink :: "sketch \<Rightarrow> sketch" where
  "blink s =
     emits [DigitalWrite LED_BUILTIN HIGH, Delay 1000,
            DigitalWrite LED_BUILTIN LOW, Delay 1000] s"

subsection \<open>WiFi (lines 98 to 119)\<close>

text \<open>
  The loop of lines 101 to 105 has no bound: it ends when a poll answers
  \<^verbatim>\<open>WL_CONNECTED\<close>, and not before. \<open>None\<close> is the run that never leaves it.
\<close>

partial_function (option) initializeWiFi_while ::
    "(nat \<Rightarrow> wl_status_t) \<Rightarrow> nat \<Rightarrow> sketch \<Rightarrow> sketch option" where
  "initializeWiFi_while status k s =
     (if status k \<noteq> WL_CONNECTED
      then initializeWiFi_while status (Suc k)
             (emits [WiFi_status (status k), Delay 500, Serial_print ''.''] s)
      else Some (emit (WiFi_status (status k)) s))"

declare initializeWiFi_while.simps [code]

definition initializeWiFi :: "(nat \<Rightarrow> wl_status_t) \<Rightarrow> nat \<Rightarrow> sketch \<Rightarrow> sketch option" where
  "initializeWiFi status k s = do {
     s1 \<leftarrow> initializeWiFi_while status k
             (emits [Serial_println ''Connecting to AP ...'',
                     WiFi_begin WIFI_SSID WIFI_PASSWORD] s);
     Some (emit (Serial_println ''Connected to AP'') s1)
   }"

definition reconnect :: "(nat \<Rightarrow> wl_status_t) \<Rightarrow> sketch \<Rightarrow> (bool \<times> sketch) option" where
  "reconnect status s =
     (let s0 = emit (WiFi_status (status 0)) s in
      if status 0 = WL_CONNECTED then Some (True, s0)
      else do {
        s1 \<leftarrow> initializeWiFi status 1 s0;
        Some (True, s1)
      })"

subsection \<open>\<^verbatim>\<open>setup\<close> (lines 60 to 67)\<close>

definition sketch_setup :: "(nat \<Rightarrow> wl_status_t) \<Rightarrow> sketch \<Rightarrow> sketch option" where
  "sketch_setup status s = do {
     s1 \<leftarrow> initializeWiFi status 0 (emits [Serial_begin SERIAL_DEBUG_BAUD, Delay 1000] s);
     Some (emit (PinMode LED_BUILTIN OUTPUT) s1)
   }"

subsection \<open>\<^verbatim>\<open>loop\<close> (lines 69 to 96)\<close>

text \<open>
  Modelled from the spec: \<^verbatim>\<open>tb.loop()\<close> belongs to the ThingsBoard client, which is not
  part of the sketch. Section 5 and the design notes have the transport invoke the
  registered progress and completion callbacks synchronously from the poll, so the poll
  runs the listed callbacks one after the other; a callback that restarts the device ends
  the poll there.
\<close>

fun dispatch :: "callback_call list \<Rightarrow> sketch \<Rightarrow> outcome" where
  "dispatch [] s = Returned s"
| "dispatch (Progress currentChunk totalChuncks # cs) s =
     dispatch cs (progressCallback currentChunk totalChuncks s)"
| "dispatch (Updated success # cs) s =
     (case updatedCallback success s of
        Returned s' \<Rightarrow> dispatch cs s'
      | Restarted s' \<Rightarrow> Restarted s')"

definition tb_loop :: "callback_call list \<Rightarrow> sketch \<Rightarrow> outcome" where
  "tb_loop cs s = dispatch cs (emit Tb_loop s)"

text \<open>
  Line 85. \<^verbatim>\<open>&&\<close> evaluates its right operand only when the left one is true, and the
  flag takes the value of the conjunction.
\<close>

definition send_current_fw :: "env \<Rightarrow> sketch \<Rightarrow> sketch" where
  "send_current_fw e s =
     (if Firmware_Send_Info_ret e
      then (emits [Firmware_Send_Info CURRENT_FIRMWARE_TITLE CURRENT_FIRMWARE_VERSION True,
                   Firmware_Send_State FW_STATE_UPDATED (Firmware_Send_State_ret e)] s)
             \<lparr>currentFWSent := Firmware_Send_State_ret e\<rparr>
      else (emit (Firmware_Send_Info CURRENT_FIRMWARE_TITLE CURRENT_FIRMWARE_VERSION False) s)
             \<lparr>currentFWSent := False\<rparr>)"

text \<open>Lines 89 and 90.\<close>

definition subscribe_update :: "env \<Rightarrow> sketch \<Rightarrow> sketch" where
  "subscribe_update e s =
     (emits [Serial_println ''Firwmare Update Subscription...'',
             Subscribe_Firmware_Update callback (Subscribe_Firmware_Update_ret e)] s)
       \<lparr>updateRequestSent := Subscribe_Firmware_Update_ret e\<rparr>"

text \<open>Lines 84 to 95: the part of \<^verbatim>\<open>loop\<close> below the two connection checks.\<close>

definition loop_connected :: "env \<Rightarrow> sketch \<Rightarrow> outcome" where
  "loop_connected e s =
     (let s1 = (if \<not> currentFWSent s then send_current_fw e s else s);
          s2 = (if \<not> updateRequestSent s1 then subscribe_update e s1 else s1);
          s3 = blink s2
      in tb_loop (tb_loop_calls e) s3)"

text \<open>Lines 74 to 95: the part of \<^verbatim>\<open>loop\<close> below the WiFi check.\<close>

definition loop_online :: "env \<Rightarrow> sketch \<Rightarrow> outcome" where
  "loop_online e s =
     (let s1 = emit (Tb_connected (Tb_connected_ret e)) s in
      if \<not> Tb_connected_ret e then
        (let s2 = emits [Serial_printf ''Connecting to: (%s) with token (%s)\<newline>''
                           [TONYSPACE_SERVER, TOKEN],
                         Tb_connect TONYSPACE_SERVER TOKEN TONYSPACE_PORT (Tb_connect_ret e)] s1
         in if \<not> Tb_connect_ret e
            then Returned (emit (Serial_println ''Failed to connect'') s2)
            else loop_connected e s2)
      else loop_connected e s1)"

definition loop :: "env \<Rightarrow> sketch \<Rightarrow> outcome option" where
  "loop e s = do {
     (r, s1) \<leftarrow> reconnect (WiFi_status_ret e) s;
     if \<not> r then Some (Returned s1) else Some (loop_online e s1)
   }"

text \<open>
  The Arduino core calls \<^verbatim>\<open>setup()\<close> once and then \<^verbatim>\<open>loop()\<close> again and again. \<open>loops\<close>
  runs one call of \<^verbatim>\<open>loop\<close> for each element of the list; a restart of the device ends
  the run.
\<close>

fun loops :: "env list \<Rightarrow> sketch \<Rightarrow> outcome option" where
  "loops [] s = Some (Returned s)"
| "loops (e # es) s =
     (case loop e s of
        None \<Rightarrow> None
      | Some (Restarted s') \<Rightarrow> Some (Restarted s')
      | Some (Returned s') \<Rightarrow> loops es s')"

definition arduino_main :: "(nat \<Rightarrow> wl_status_t) \<Rightarrow> env list \<Rightarrow> outcome option" where
  "arduino_main status es = do {
     s \<leftarrow> sketch_setup status boot;
     loops es s
   }"

section \<open>The eligibility check of the client\<close>

text \<open>
  The comment of lines 6 and 7 says how the client compares the title and version handed
  over in line 58 with an announced firmware; the comparison itself is made inside the
  ThingsBoard client.
\<close>

record FirmwareDescriptor =
  title :: string
  version :: string
  total_size :: "32 word"
  checksum :: "8 word list"
  chunk_size :: "32 word"

text \<open>
  Modelled from the spec: \<^verbatim>\<open>is_update_needed\<close> is not in the sketch (the ThingsBoard client
  decides it). Section 4.1 defines it as true iff
  \<^verbatim>\<open>running.title == announced.title && running.version != announced.version\<close>, with no
  other comparison.
\<close>

definition is_update_needed :: "FirmwareDescriptor \<Rightarrow> FirmwareDescriptor \<Rightarrow> bool" where
  "is_update_needed running announced \<longleftrightarrow>
     title running = title announced \<and> version running \<noteq> version announced"

section \<open>Observing traces\<close>

text \<open>The calls recorded after state \<open>s\<close> was reached and up to state \<open>s'\<close>.\<close>

definition since :: "sketch \<Rightarrow> sketch \<Rightarrow> event list" where
  "since s s' = drop (length (trace s)) (trace s')"

text \<open>The trace of a run that came back, and no trace for one that did not.\<close>

fun run_trace :: "outcome option \<Rightarrow> event list" where
  "run_trace None = []"
| "run_trace (Some out) = trace (final out)"

text \<open>The sends guarded by \<^verbatim>\<open>currentFWSent\<close>.\<close>

fun is_fw_send :: "event \<Rightarrow> bool" where
  "is_fw_send (Firmware_Send_Info t v r) = True"
| "is_fw_send (Firmware_Send_State l r) = True"
| "is_fw_send ev = False"

text \<open>The call guarded by \<^verbatim>\<open>updateRequestSent\<close>.\<close>

fun is_subscribe :: "event \<Rightarrow> bool" where
  "is_subscribe (Subscribe_Firmware_Update c r) = True"
| "is_subscribe ev = False"

text \<open>
  The protocol actions: sending firmware info or state, subscribing to firmware updates,
  and processing the messages of the transport.
\<close>

fun is_protocol :: "event \<Rightarrow> bool" where
  "is_protocol (Firmware_Send_Info t v r) = True"
| "is_protocol (Firmware_Send_State l r) = True"
| "is_protocol (Subscribe_Firmware_Update c r) = True"
| "is_protocol Tb_loop = True"
| "is_protocol ev = False"

text \<open>The kinds of call made while waiting for the WiFi, and those made by the callbacks.\<close>

fun is_wifi_io :: "event \<Rightarrow> bool" where
  "is_wifi_io (WiFi_status st) = True"
| "is_wifi_io (WiFi_begin ssid pw) = True"
| "is_wifi_io (Delay ms) = True"
| "is_wifi_io (Serial_print str) = True"
| "is_wifi_io (Serial_println str) = True"
| "is_wifi_io ev = False"

fun is_callback_io :: "event \<Rightarrow> bool" where
  "is_callback_io (Serial_printf_ratio f a b) = True"
| "is_callback_io (Serial_println str) = True"
| "is_callback_io Esp_restart = True"
| "is_callback_io ev = False"

text \<open>The server connection is up once \<^verbatim>\<open>tb.connected()\<close> or \<^verbatim>\<open>tb.connect(...)\<close> said so.\<close>

definition up :: "env \<Rightarrow> bool" where
  "up e \<longleftrightarrow> Tb_connected_ret e \<or> Tb_connect_ret e"

text \<open>
  The calls of lines 74 to 95, in order, up to and including \<^verbatim>\<open>tb.loop()\<close> itself; the
  calls made by the callbacks follow them. \<open>loop_online_frame\<close> below proves that this is
  what \<open>loop_online\<close> records.
\<close>

definition online_calls :: "env \<Rightarrow> sketch \<Rightarrow> event list" where
  "online_calls e s =
     Tb_connected (Tb_connected_ret e) #
     (if Tb_connected_ret e then []
      else [Serial_printf ''Connecting to: (%s) with token (%s)\<newline>''
              [TONYSPACE_SERVER, TOKEN],
            Tb_connect TONYSPACE_SERVER TOKEN TONYSPACE_PORT (Tb_connect_ret e)]) @
     (if \<not> up e then [Serial_println ''Failed to connect'']
      else
        (if currentFWSent s then []
         else Firmware_Send_Info CURRENT_FIRMWARE_TITLE CURRENT_FIRMWARE_VERSION
                (Firmware_Send_Info_ret e) #
              (if Firmware_Send_Info_ret e
               then [Firmware_Send_State FW_STATE_UPDATED (Firmware_Send_State_ret e)]
               else [])) @
        (if updateRequestSent s then []
         else [Serial_println ''Firwmare Update Subscription...'',
               Subscribe_Firmware_Update callback (Subscribe_Firmware_Update_ret e)]) @
        [DigitalWrite LED_BUILTIN HIGH, Delay 1000, DigitalWrite LED_BUILTIN LOW, Delay 1000,
         Tb_loop])"

text \<open>
  \<open>info_precedes_state prev evs\<close>: in \<open>evs\<close>, read after the call \<open>prev\<close>, every
  \<^verbatim>\<open>Firmware_Send_State\<close> sends \<^verbatim>\<open>UPDATED\<close> and comes directly after a
  \<^verbatim>\<open>Firmware_Send_Info\<close> of the current title and version that returned true.
\<close>

fun info_precedes_state :: "event option \<Rightarrow> event list \<Rightarrow> bool" where
  "info_precedes_state prev [] = True"
| "info_precedes_state prev (Firmware_Send_State l r # evs) =
     (l = FW_STATE_UPDATED \<and>
      prev = Some (Firmware_Send_Info CURRENT_FIRMWARE_TITLE CURRENT_FIRMWARE_VERSION True) \<and>
      info_precedes_state (Some (Firmware_Send_State l r)) evs)"
| "info_precedes_state prev (ev # evs) = info_precedes_state (Some ev) evs"

text \<open>
  \<open>gated wifi server evs\<close>: every protocol action in \<open>evs\<close> comes after a
  \<^verbatim>\<open>WiFi.status()\<close> that answered \<^verbatim>\<open>WL_CONNECTED\<close> and a \<^verbatim>\<open>tb.connected()\<close> or
  \<^verbatim>\<open>tb.connect(...)\<close> that answered true, each being the latest answer of its kind.
  \<open>wifi\<close> and \<open>server\<close> are the latest answers before \<open>evs\<close>.
\<close>

fun gated :: "bool \<Rightarrow> bool \<Rightarrow> event list \<Rightarrow> bool" where
  "gated wifi server [] = True"
| "gated wifi server (WiFi_status st # evs) = gated (st = WL_CONNECTED) server evs"
| "gated wifi server (Tb_connected r # evs) = gated wifi r evs"
| "gated wifi server (Tb_connect host token port r # evs) = gated wifi r evs"
| "gated wifi server (ev # evs) =
     (if is_protocol ev then wifi \<and> server \<and> gated wifi server evs
      else gated wifi server evs)"

section \<open>Sample answers of the collaborators\<close>

definition wifi_up :: "nat \<Rightarrow> wl_status_t" where
  "wifi_up = (\<lambda>k. WL_CONNECTED)"

definition wifi_down :: "nat \<Rightarrow> wl_status_t" where
  "wifi_down = (\<lambda>k. WL_DISCONNECTED)"

definition wifi_late :: "nat \<Rightarrow> wl_status_t" where
  "wifi_late = (\<lambda>k. if k < 2 then WL_DISCONNECTED else WL_CONNECTED)"

text \<open>The first call of \<^verbatim>\<open>loop\<close> after a start: the server is reached, every send succeeds.\<close>

definition env_first :: env where
  "env_first =
     \<lparr>WiFi_status_ret = wifi_up, Tb_connected_ret = False, Tb_connect_ret = True,
      Firmware_Send_Info_ret = True, Firmware_Send_State_ret = True,
      Subscribe_Firmware_Update_ret = True, tb_loop_calls = []\<rparr>"

definition env_steady :: env where
  "env_steady = env_first\<lparr>Tb_connected_ret := True\<rparr>"

definition env_state_fails :: env where
  "env_state_fails = env_first\<lparr>Firmware_Send_State_ret := False\<rparr>"

definition env_server_down :: env where
  "env_server_down = env_first\<lparr>Tb_connect_ret := False\<rparr>"

definition env_wifi_down :: env where
  "env_wifi_down = env_steady\<lparr>WiFi_status_ret := wifi_down\<rparr>"

definition env_wifi_late :: env where
  "env_wifi_late = env_steady\<lparr>WiFi_status_ret := wifi_late\<rparr>"

definition env_update_done :: env where
  "env_update_done = env_steady\<lparr>tb_loop_calls := [Progress 3 3, Updated True]\<rparr>"

definition env_update_failed :: env where
  "env_update_failed = env_steady\<lparr>tb_loop_calls := [Updated False]\<rparr>"

text \<open>The state after a first call of \<^verbatim>\<open>loop\<close> in which every send succeeded.\<close>

definition subscribed :: sketch where
  "subscribed = \<lparr>currentFWSent = True, updateRequestSent = True, trace = []\<rparr>"

section \<open>What each function records\<close>

text \<open>
  Each function of the sketch appends to the trace and, \<^verbatim>\<open>loop\<close> apart, leaves the flags
  alone. The lemmas of this section say which calls each function appends.
\<close>

subsection \<open>The wait for the WiFi\<close>

lemma while_frame:
  assumes "initializeWiFi_while status k s = Some s'"
  shows "currentFWSent s' = currentFWSent s \<and> updateRequestSent s' = updateRequestSent s \<and>
         (\<exists>evs. trace s' = trace s @ evs @ [WiFi_status WL_CONNECTED] \<and> list_all is_wifi_io evs)"
proof (rule initializeWiFi_while.raw_induct
        [where P = "\<lambda>status k s s'. currentFWSent s' = currentFWSent s \<and>
           updateRequestSent s' = updateRequestSent s \<and>
           (\<exists>evs. trace s' = trace s @ evs @ [WiFi_status WL_CONNECTED] \<and> list_all is_wifi_io evs)",
         OF _ assms], goal_cases)
  case (1 f status k s y)
  show ?case
  proof (cases "status k = WL_CONNECTED")
    case True
    with 1(2) show ?thesis by (auto simp: emit_def emits_def)
  next
    case False
    let ?t = "emits [WiFi_status (status k), Delay 500, Serial_print ''.''] s"
    from False 1(2) have "f status (Suc k) ?t = Some y"
      by simp
    from 1(1)[OF this] obtain evs where
      "currentFWSent y = currentFWSent ?t" "updateRequestSent y = updateRequestSent ?t"
      "trace y = trace ?t @ evs @ [WiFi_status WL_CONNECTED]" "list_all is_wifi_io evs"
      by blast
    then have "currentFWSent y = currentFWSent s" "updateRequestSent y = updateRequestSent s"
      "trace y = trace s @ ([WiFi_status (status k), Delay 500, Serial_print ''.''] @ evs)
         @ [WiFi_status WL_CONNECTED]"
      "list_all is_wifi_io ([WiFi_status (status k), Delay 500, Serial_print ''.''] @ evs)"
      by (simp_all add: emits_def)
    then show ?thesis by blast
  qed
qed

lemma while_needs:
  assumes "initializeWiFi_while status k s = Some s'"
  shows "\<exists>n. status (k + n) = WL_CONNECTED"
proof (rule initializeWiFi_while.raw_induct
        [where P = "\<lambda>status k s s'. \<exists>n. status (k + n) = WL_CONNECTED", OF _ assms], goal_cases)
  case (1 f status k s y)
  show ?case
  proof (cases "status k = WL_CONNECTED")
    case True
    then have "status (k + 0) = WL_CONNECTED" by simp
    then show ?thesis by blast
  next
    case False
    with 1(2) have "f status (Suc k) (emits [WiFi_status (status k), Delay 500, Serial_print ''.''] s) = Some y"
      by simp
    then obtain n where "status (Suc k + n) = WL_CONNECTED" using 1(1) by blast
    then have "status (k + Suc n) = WL_CONNECTED" by simp
    then show ?thesis by blast
  qed
qed

lemma while_returns:
  "status (k + n) = WL_CONNECTED \<Longrightarrow>
   \<exists>s'. initializeWiFi_while status k s = Some s' \<and> length (trace s') \<le> length (trace s) + 3 * n + 1"
proof (induction n arbitrary: k s)
  case 0
  then show ?case by (subst initializeWiFi_while.simps) (simp add: emit_def emits_def)
next
  case (Suc n)
  show ?case
  proof (cases "status k = WL_CONNECTED")
    case True
    then show ?thesis by (subst initializeWiFi_while.simps) (simp add: emit_def emits_def)
  next
    case False
    let ?t = "emits [WiFi_status (status k), Delay 500, Serial_print ''.''] s"
    from Suc.prems have "status (Suc k + n) = WL_CONNECTED" by simp
    from Suc.IH[OF this, of ?t] obtain s' where
      "initializeWiFi_while status (Suc k) ?t = Some s'"
      "length (trace s') \<le> length (trace ?t) + 3 * n + 1" by blast
    with False show ?thesis
      by (subst initializeWiFi_while.simps) (simp add: emits_def)
  qed
qed

lemma while_never:
  "\<forall>n. status (k + n) \<noteq> WL_CONNECTED \<Longrightarrow> initializeWiFi_while status k s = None"
  using while_needs[of status k s] by (cases "initializeWiFi_while status k s") auto

subsection \<open>\<^verbatim>\<open>initializeWiFi\<close> and \<^verbatim>\<open>reconnect\<close>\<close>

lemma initializeWiFi_frame:
  assumes "initializeWiFi status k s = Some s'"
  shows "currentFWSent s' = currentFWSent s \<and> updateRequestSent s' = updateRequestSent s \<and>
         (\<exists>evs. trace s' = trace s @ evs \<and> list_all is_wifi_io evs \<and>
                WiFi_status WL_CONNECTED \<in> set evs)"
proof -
  let ?t = "emits [Serial_println ''Connecting to AP ...'', WiFi_begin WIFI_SSID WIFI_PASSWORD] s"
  from assms obtain s1 where w: "initializeWiFi_while status k ?t = Some s1"
    and s': "s' = emit (Serial_println ''Connected to AP'') s1"
    by (auto simp: initializeWiFi_def split: bind_splits)
  from while_frame[OF w] obtain evs where
    "currentFWSent s1 = currentFWSent ?t" "updateRequestSent s1 = updateRequestSent ?t"
    "trace s1 = trace ?t @ evs @ [WiFi_status WL_CONNECTED]" "list_all is_wifi_io evs"
    by blast
  with s' have "currentFWSent s' = currentFWSent s" "updateRequestSent s' = updateRequestSent s"
    "trace s' = trace s @ ([Serial_println ''Connecting to AP ...'', WiFi_begin WIFI_SSID WIFI_PASSWORD]
        @ evs @ [WiFi_status WL_CONNECTED, Serial_println ''Connected to AP''])"
    "list_all is_wifi_io ([Serial_println ''Connecting to AP ...'', WiFi_begin WIFI_SSID WIFI_PASSWORD]
        @ evs @ [WiFi_status WL_CONNECTED, Serial_println ''Connected to AP''])"
    "WiFi_status WL_CONNECTED \<in> set ([Serial_println ''Connecting to AP ...'', WiFi_begin WIFI_SSID WIFI_PASSWORD]
        @ evs @ [WiFi_status WL_CONNECTED, Serial_println ''Connected to AP''])"
    by (simp_all add: emits_def emit_def)
  then show ?thesis by blast
qed

lemma initializeWiFi_needs:
  "initializeWiFi status k s = Some s' \<Longrightarrow> \<exists>n. status (k + n) = WL_CONNECTED"
  by (auto simp: initializeWiFi_def split: bind_splits dest: while_needs)

lemma initializeWiFi_returns:
  assumes "status (k + n) = WL_CONNECTED"
  shows "\<exists>s'. initializeWiFi status k s = Some s' \<and>
              length (trace s') \<le> length (trace s) + 3 * n + 4"
proof -
  let ?t = "emits [Serial_println ''Connecting to AP ...'', WiFi_begin WIFI_SSID WIFI_PASSWORD] s"
  from while_returns[of status k n ?t, OF assms] obtain s1 where
    "initializeWiFi_while status k ?t = Some s1"
    "length (trace s1) \<le> length (trace ?t) + 3 * n + 1" by blast
  then show ?thesis by (simp add: initializeWiFi_def emits_def emit_def)
qed

lemma reconnect_frame:
  assumes "reconnect status s = Some (r, s')"
  shows "r \<and> currentFWSent s' = currentFWSent s \<and> updateRequestSent s' = updateRequestSent s \<and>
         (\<exists>evs. trace s' = trace s @ evs \<and> list_all is_wifi_io evs \<and>
                WiFi_status WL_CONNECTED \<in> set evs)"
proof (cases "status 0 = WL_CONNECTED")
  case True
  with assms have "r" "s' = emit (WiFi_status WL_CONNECTED) s"
    by (auto simp: reconnect_def Let_def)
  then have "r" "currentFWSent s' = currentFWSent s" "updateRequestSent s' = updateRequestSent s"
    "trace s' = trace s @ [WiFi_status WL_CONNECTED]" "list_all is_wifi_io [WiFi_status WL_CONNECTED]"
    "WiFi_status WL_CONNECTED \<in> set [WiFi_status WL_CONNECTED]"
    by (simp_all add: emit_def emits_def)
  then show ?thesis by blast
next
  case False
  let ?t = "emit (WiFi_status (status 0)) s"
  from False assms have r: "r" and i: "initializeWiFi status 1 ?t = Some s'"
    by (auto simp: reconnect_def Let_def split: bind_splits)
  from initializeWiFi_frame[OF i] obtain evs where
    "currentFWSent s' = currentFWSent ?t" "updateRequestSent s' = updateRequestSent ?t"
    "trace s' = trace ?t @ evs" "list_all is_wifi_io evs" "WiFi_status WL_CONNECTED \<in> set evs"
    by blast
  then have "currentFWSent s' = currentFWSent s" "updateRequestSent s' = updateRequestSent s"
    "trace s' = trace s @ (WiFi_status (status 0) # evs)"
    "list_all is_wifi_io (WiFi_status (status 0) # evs)"
    "WiFi_status WL_CONNECTED \<in> set (WiFi_status (status 0) # evs)"
    by (simp_all add: emit_def emits_def)
  with r show ?thesis by blast
qed

lemma reconnect_needs:
  assumes "reconnect status s = Some x"
  shows "\<exists>n. status n = WL_CONNECTED"
proof (cases "status 0 = WL_CONNECTED")
  case True
  then show ?thesis by blast
next
  case False
  with assms obtain s' where "initializeWiFi status 1 (emit (WiFi_status (status 0)) s) = Some s'"
    by (auto simp: reconnect_def Let_def split: bind_splits)
  from initializeWiFi_needs[OF this] show ?thesis by blast
qed

lemma reconnect_returns:
  assumes "status n = WL_CONNECTED"
  shows "\<exists>s'. reconnect status s = Some (True, s') \<and>
              length (trace s') \<le> length (trace s) + 3 * n + 2"
proof (cases "status 0 = WL_CONNECTED")
  case True
  then show ?thesis by (simp add: reconnect_def emit_def emits_def)
next
  case False
  with assms have "n \<noteq> 0" by (cases n) auto
  then obtain m where n: "n = Suc m" by (cases n) auto
  with assms have "status (1 + m) = WL_CONNECTED" by simp
  from initializeWiFi_returns[of status 1 m "emit (WiFi_status (status 0)) s", OF this] obtain s' where
    "initializeWiFi status 1 (emit (WiFi_status (status 0)) s) = Some s'"
    "length (trace s') \<le> length (trace (emit (WiFi_status (status 0)) s)) + 3 * m + 4"
    by blast
  with False n show ?thesis by (simp add: reconnect_def Let_def emit_def emits_def)
qed

subsection \<open>The callbacks run by \<^verbatim>\<open>tb.loop()\<close>\<close>

lemma dispatch_frame:
  "\<exists>cevs. list_all is_callback_io cevs \<and> length cevs \<le> 2 * length cs \<and>
      (Esp_restart \<in> set cevs \<longleftrightarrow> Updated True \<in> set cs) \<and>
      (Updated True \<in> set cs \<longrightarrow> last cevs = Esp_restart) \<and>
      (\<forall>s. trace (final (dispatch cs s)) = trace s @ cevs \<and>
           currentFWSent (final (dispatch cs s)) = currentFWSent s \<and>
           updateRequestSent (final (dispatch cs s)) = updateRequestSent s \<and>
           (is_Restarted (dispatch cs s) \<longleftrightarrow> Updated True \<in> set cs))"
proof (induction cs)
  case Nil
  show ?case by (rule exI[of _ "[]"]) simp
next
  case (Cons c cs)
  then obtain cevs where IH: "list_all is_callback_io cevs" "length cevs \<le> 2 * length cs"
      "Esp_restart \<in> set cevs \<longleftrightarrow> Updated True \<in> set cs"
      "Updated True \<in> set cs \<longrightarrow> last cevs = Esp_restart"
      "\<And>s. trace (final (dispatch cs s)) = trace s @ cevs"
      "\<And>s. currentFWSent (final (dispatch cs s)) = currentFWSent s"
      "\<And>s. updateRequestSent (final (dispatch cs s)) = updateRequestSent s"
      "\<And>s. is_Restarted (dispatch cs s) \<longleftrightarrow> Updated True \<in> set cs"
    by blast
  show ?case
  proof (cases c)
    case (Progress a b)
    show ?thesis
      apply (rule exI[of _ "Serial_printf_ratio ''Progress %.2f%%\<newline>'' (a * 100) b # cevs"])
      using IH Progress by (auto simp: progressCallback_def emit_def emits_def)
  next
    case (Updated ok)
    show ?thesis
    proof (cases ok)
      case True
      show ?thesis
        apply (rule exI[of _ "[Serial_println ''Done, Reboot now'', Esp_restart]"])
        using Updated True by (simp add: updatedCallback_def emits_def)
    next
      case False
      show ?thesis
        apply (rule exI[of _ "Serial_println ''Downloading firmware failed'' # cevs"])
        using IH Updated False by (auto simp: updatedCallback_def emit_def emits_def)
    qed
  qed
qed


subsection \<open>One call of \<^verbatim>\<open>loop\<close>\<close>

lemma loop_online_frame:
  "\<exists>cevs. list_all is_callback_io cevs \<and> length cevs \<le> 2 * length (tb_loop_calls e) \<and>
      (\<not> up e \<longrightarrow> cevs = []) \<and>
      (Esp_restart \<in> set cevs \<longleftrightarrow> up e \<and> Updated True \<in> set (tb_loop_calls e)) \<and>
      (up e \<and> Updated True \<in> set (tb_loop_calls e) \<longrightarrow> last cevs = Esp_restart) \<and>
      (\<forall>s. trace (final (loop_online e s)) = trace s @ online_calls e s @ cevs \<and>
           currentFWSent (final (loop_online e s)) =
             (currentFWSent s \<or> up e \<and> Firmware_Send_Info_ret e \<and> Firmware_Send_State_ret e) \<and>
           updateRequestSent (final (loop_online e s)) =
             (updateRequestSent s \<or> up e \<and> Subscribe_Firmware_Update_ret e) \<and>
           (is_Restarted (loop_online e s) \<longleftrightarrow> up e \<and> Updated True \<in> set (tb_loop_calls e)))"
proof (cases "up e")
  case False
  show ?thesis
    apply (rule exI[of _ "[]"])
    using False by (simp add: up_def loop_online_def online_calls_def emit_def emits_def Let_def)
next
  case True
  from dispatch_frame[of "tb_loop_calls e"] obtain cevs where d:
      "list_all is_callback_io cevs" "length cevs \<le> 2 * length (tb_loop_calls e)"
      "Esp_restart \<in> set cevs \<longleftrightarrow> Updated True \<in> set (tb_loop_calls e)"
      "Updated True \<in> set (tb_loop_calls e) \<longrightarrow> last cevs = Esp_restart"
      "\<And>s. trace (final (dispatch (tb_loop_calls e) s)) = trace s @ cevs"
      "\<And>s. currentFWSent (final (dispatch (tb_loop_calls e) s)) = currentFWSent s"
      "\<And>s. updateRequestSent (final (dispatch (tb_loop_calls e) s)) = updateRequestSent s"
      "\<And>s. is_Restarted (dispatch (tb_loop_calls e) s) \<longleftrightarrow> Updated True \<in> set (tb_loop_calls e)"
    by blast
  have "trace (final (loop_online e s)) = trace s @ online_calls e s @ cevs \<and>
        currentFWSent (final (loop_online e s)) =
          (currentFWSent s \<or> up e \<and> Firmware_Send_Info_ret e \<and> Firmware_Send_State_ret e) \<and>
        updateRequestSent (final (loop_online e s)) =
          (updateRequestSent s \<or> up e \<and> Subscribe_Firmware_Update_ret e) \<and>
        (is_Restarted (loop_online e s) \<longleftrightarrow> up e \<and> Updated True \<in> set (tb_loop_calls e))" for s
    using True d(5-8)
    by (auto simp: up_def loop_online_def loop_connected_def tb_loop_def send_current_fw_def
        subscribe_update_def blink_def online_calls_def emit_def emits_def Let_def)
  with d(1-4) True show ?thesis by blast
qed

lemma online_calls_cong:
  "currentFWSent s' = currentFWSent s \<Longrightarrow> updateRequestSent s' = updateRequestSent s \<Longrightarrow>
   online_calls e s' = online_calls e s"
  by (simp add: online_calls_def)

lemma loop_SomeD:
  "loop e s = Some out \<Longrightarrow>
   \<exists>s1. reconnect (WiFi_status_ret e) s = Some (True, s1) \<and> out = loop_online e s1"
  by (auto simp: loop_def split: bind_splits if_splits dest: reconnect_frame)

lemma loop_frame:
  assumes "loop e s = Some out"
  shows "\<exists>wevs cevs.
      list_all is_wifi_io wevs \<and> WiFi_status WL_CONNECTED \<in> set wevs \<and>
      list_all is_callback_io cevs \<and> length cevs \<le> 2 * length (tb_loop_calls e) \<and>
      (\<not> up e \<longrightarrow> cevs = []) \<and>
      (Esp_restart \<in> set cevs \<longleftrightarrow> up e \<and> Updated True \<in> set (tb_loop_calls e)) \<and>
      (up e \<and> Updated True \<in> set (tb_loop_calls e) \<longrightarrow> last cevs = Esp_restart) \<and>
      trace (final out) = trace s @ wevs @ online_calls e s @ cevs \<and>
      currentFWSent (final out) =
        (currentFWSent s \<or> up e \<and> Firmware_Send_Info_ret e \<and> Firmware_Send_State_ret e) \<and>
      updateRequestSent (final out) =
        (updateRequestSent s \<or> up e \<and> Subscribe_Firmware_Update_ret e) \<and>
      (is_Restarted out \<longleftrightarrow> up e \<and> Updated True \<in> set (tb_loop_calls e))"
proof -
  from loop_SomeD[OF assms] obtain s1 where
    r: "reconnect (WiFi_status_ret e) s = Some (True, s1)" and out: "out = loop_online e s1"
    by blast
  from reconnect_frame[OF r] obtain wevs where w:
    "currentFWSent s1 = currentFWSent s" "updateRequestSent s1 = updateRequestSent s"
    "trace s1 = trace s @ wevs" "list_all is_wifi_io wevs" "WiFi_status WL_CONNECTED \<in> set wevs"
    by blast
  from loop_online_frame[of e] obtain cevs where c:
    "list_all is_callback_io cevs" "length cevs \<le> 2 * length (tb_loop_calls e)"
    "\<not> up e \<longrightarrow> cevs = []"
    "Esp_restart \<in> set cevs \<longleftrightarrow> up e \<and> Updated True \<in> set (tb_loop_calls e)"
    "up e \<and> Updated True \<in> set (tb_loop_calls e) \<longrightarrow> last cevs = Esp_restart"
    "\<And>s. trace (final (loop_online e s)) = trace s @ online_calls e s @ cevs"
    "\<And>s. currentFWSent (final (loop_online e s)) =
             (currentFWSent s \<or> up e \<and> Firmware_Send_Info_ret e \<and> Firmware_Send_State_ret e)"
    "\<And>s. updateRequestSent (final (loop_online e s)) =
             (updateRequestSent s \<or> up e \<and> Subscribe_Firmware_Update_ret e)"
    "\<And>s. is_Restarted (loop_online e s) \<longleftrightarrow> up e \<and> Updated True \<in> set (tb_loop_calls e)"
    by blast
  have "trace (final out) = trace s @ wevs @ online_calls e s @ cevs"
    using out c(6)[of s1] w(1-3) online_calls_cong[OF w(1,2), of e] by simp
  moreover have "currentFWSent (final out) =
        (currentFWSent s \<or> up e \<and> Firmware_Send_Info_ret e \<and> Firmware_Send_State_ret e)"
    using out c(7)[of s1] w(1) by simp
  moreover have "updateRequestSent (final out) =
        (updateRequestSent s \<or> up e \<and> Subscribe_Firmware_Update_ret e)"
    using out c(8)[of s1] w(2) by simp
  moreover have "is_Restarted out \<longleftrightarrow> up e \<and> Updated True \<in> set (tb_loop_calls e)"
    using out c(9)[of s1] by simp
  ultimately show ?thesis using w(4,5) c(1-5) by blast
qed

subsection \<open>Consequences for the calls of one iteration\<close>

lemma since_append: "trace s' = trace s @ evs \<Longrightarrow> since s s' = evs"
  by (simp add: since_def)

lemma filter_none: "list_all P xs \<Longrightarrow> (\<And>x. P x \<Longrightarrow> \<not> Q x) \<Longrightarrow> filter Q xs = []"
  by (induction xs) auto

lemma wifi_io_quiet: "is_wifi_io ev \<Longrightarrow> \<not> is_protocol ev \<and> ev \<noteq> Esp_restart"
  by (cases ev) auto

lemma callback_io_quiet: "is_callback_io ev \<Longrightarrow> \<not> is_protocol ev"
  by (cases ev) auto

lemma fw_send_protocol: "is_fw_send ev \<Longrightarrow> is_protocol ev"
  by (cases ev) auto

lemma subscribe_protocol: "is_subscribe ev \<Longrightarrow> is_protocol ev"
  by (cases ev) auto

lemma loop_since:
  assumes "loop e s = Some out"
  shows "\<exists>wevs cevs.
      list_all is_wifi_io wevs \<and> WiFi_status WL_CONNECTED \<in> set wevs \<and>
      list_all is_callback_io cevs \<and> length cevs \<le> 2 * length (tb_loop_calls e) \<and>
      (\<not> up e \<longrightarrow> cevs = []) \<and>
      (Esp_restart \<in> set cevs \<longleftrightarrow> up e \<and> Updated True \<in> set (tb_loop_calls e)) \<and>
      (up e \<and> Updated True \<in> set (tb_loop_calls e) \<longrightarrow> last cevs = Esp_restart) \<and>
      since s (final out) = wevs @ online_calls e s @ cevs \<and>
      trace (final out) = trace s @ since s (final out)"
proof -
  from loop_frame[OF assms] obtain wevs cevs where f:
    "list_all is_wifi_io wevs" "WiFi_status WL_CONNECTED \<in> set wevs"
    "list_all is_callback_io cevs" "length cevs \<le> 2 * length (tb_loop_calls e)"
    "\<not> up e \<longrightarrow> cevs = []"
    "Esp_restart \<in> set cevs \<longleftrightarrow> up e \<and> Updated True \<in> set (tb_loop_calls e)"
    "up e \<and> Updated True \<in> set (tb_loop_calls e) \<longrightarrow> last cevs = Esp_restart"
    "trace (final out) = trace s @ wevs @ online_calls e s @ cevs"
    by blast
  from since_append[OF f(8)] have "since s (final out) = wevs @ online_calls e s @ cevs" .
  with f show ?thesis by auto
qed

lemma loop_flags:
  assumes "loop e s = Some out"
  shows "currentFWSent (final out) =
           (currentFWSent s \<or> up e \<and> Firmware_Send_Info_ret e \<and> Firmware_Send_State_ret e)"
    and "updateRequestSent (final out) =
           (updateRequestSent s \<or> up e \<and> Subscribe_Firmware_Update_ret e)"
    and "is_Restarted out \<longleftrightarrow> up e \<and> Updated True \<in> set (tb_loop_calls e)"
  using loop_frame[OF assms] by blast+

lemma loop_trace: "loop e s = Some out \<Longrightarrow> trace (final out) = trace s @ since s (final out)"
  using loop_since by blast

lemma loop_fw_sends:
  assumes "loop e s = Some out"
  shows "filter is_fw_send (since s (final out)) =
     (if up e \<and> \<not> currentFWSent s
      then Firmware_Send_Info CURRENT_FIRMWARE_TITLE CURRENT_FIRMWARE_VERSION
             (Firmware_Send_Info_ret e) #
           (if Firmware_Send_Info_ret e
            then [Firmware_Send_State FW_STATE_UPDATED (Firmware_Send_State_ret e)] else [])
      else [])"
proof -
  from loop_since[OF assms] obtain wevs cevs where f:
    "list_all is_wifi_io wevs" "list_all is_callback_io cevs"
    "since s (final out) = wevs @ online_calls e s @ cevs"
    by blast
  have "filter is_fw_send wevs = []" "filter is_fw_send cevs = []"
    using f(1,2) wifi_io_quiet callback_io_quiet fw_send_protocol
    by (blast intro: filter_none)+
  with f(3) show ?thesis by (simp add: online_calls_def)
qed

lemma loop_subscribes:
  assumes "loop e s = Some out"
  shows "filter is_subscribe (since s (final out)) =
     (if up e \<and> \<not> updateRequestSent s
      then [Subscribe_Firmware_Update callback (Subscribe_Firmware_Update_ret e)] else [])"
proof -
  from loop_since[OF assms] obtain wevs cevs where f:
    "list_all is_wifi_io wevs" "list_all is_callback_io cevs"
    "since s (final out) = wevs @ online_calls e s @ cevs"
    by blast
  have "filter is_subscribe wevs = []" "filter is_subscribe cevs = []"
    using f(1,2) wifi_io_quiet callback_io_quiet subscribe_protocol
    by (blast intro: filter_none)+
  with f(3) show ?thesis by (simp add: online_calls_def)
qed

lemma loop_protocol_down:
  assumes "loop e s = Some out" "\<not> up e"
  shows "filter is_protocol (since s (final out)) = []"
proof -
  from loop_since[OF assms(1)] assms(2) obtain wevs where f:
    "list_all is_wifi_io wevs" "since s (final out) = wevs @ online_calls e s @ []"
    by blast
  have "filter is_protocol wevs = []"
    using f(1) wifi_io_quiet by (blast intro: filter_none)
  with f(2) assms(2) show ?thesis by (simp add: online_calls_def up_def)
qed

subsection \<open>Runs of several iterations\<close>

lemma loops_fw_sent:
  "loops es s = Some out \<Longrightarrow> currentFWSent s \<Longrightarrow>
   currentFWSent (final out) \<and> trace (final out) = trace s @ since s (final out) \<and>
   filter is_fw_send (since s (final out)) = []"
proof (induction es arbitrary: s)
  case Nil
  then show ?case by (auto simp: since_def)
next
  case (Cons e es)
  from Cons.prems(1) obtain o1 where l: "loop e s = Some o1"
    by (auto split: option.splits)
  have fl: "currentFWSent (final o1)" using loop_flags(1)[OF l] Cons.prems(2) by simp
  have tr: "trace (final o1) = trace s @ since s (final o1)" by (rule loop_trace[OF l])
  have fs: "filter is_fw_send (since s (final o1)) = []"
    using loop_fw_sends[OF l] Cons.prems(2) by simp
  show ?case
  proof (cases o1)
    case (Restarted s')
    with l Cons.prems(1) have "out = o1" by simp
    with fl tr fs show ?thesis by simp
  next
    case (Returned s')
    with l Cons.prems(1) have "loops es s' = Some out" by simp
    from Cons.IH[OF this] fl Returned have
      "currentFWSent (final out)" "trace (final out) = trace s' @ since s' (final out)"
      "filter is_fw_send (since s' (final out)) = []" by simp_all
    moreover from this(2) tr Returned
    have "trace (final out) = trace s @ (since s s' @ since s' (final out))" by simp
    moreover from since_append[OF this]
    have "since s (final out) = since s s' @ since s' (final out)" .
    ultimately show ?thesis using fs Returned by simp
  qed
qed

lemma loops_subscribed:
  "loops es s = Some out \<Longrightarrow> updateRequestSent s \<Longrightarrow>
   updateRequestSent (final out) \<and> trace (final out) = trace s @ since s (final out) \<and>
   filter is_subscribe (since s (final out)) = []"
proof (induction es arbitrary: s)
  case Nil
  then show ?case by (auto simp: since_def)
next
  case (Cons e es)
  from Cons.prems(1) obtain o1 where l: "loop e s = Some o1"
    by (auto split: option.splits)
  have fl: "updateRequestSent (final o1)" using loop_flags(2)[OF l] Cons.prems(2) by simp
  have tr: "trace (final o1) = trace s @ since s (final o1)" by (rule loop_trace[OF l])
  have fs: "filter is_subscribe (since s (final o1)) = []"
    using loop_subscribes[OF l] Cons.prems(2) by simp
  show ?case
  proof (cases o1)
    case (Restarted s')
    with l Cons.prems(1) have "out = o1" by simp
    with fl tr fs show ?thesis by simp
  next
    case (Returned s')
    with l Cons.prems(1) have "loops es s' = Some out" by simp
    from Cons.IH[OF this] fl Returned have
      "updateRequestSent (final out)" "trace (final out) = trace s' @ since s' (final out)"
      "filter is_subscribe (since s' (final out)) = []" by simp_all
    moreover from this(2) tr Returned
    have "trace (final out) = trace s @ (since s s' @ since s' (final out))" by simp
    moreover from since_append[OF this]
    have "since s (final out) = since s s' @ since s' (final out)" .
    ultimately show ?thesis using fs Returned by simp
  qed
qed

subsection \<open>Termination, restarts and the server check\<close>

lemma loop_None:
  assumes "\<forall>n. WiFi_status_ret e n \<noteq> WL_CONNECTED"
  shows "loop e s = None"
proof (cases "loop e s")
  case (Some out)
  from loop_SomeD[OF Some] reconnect_needs assms show ?thesis by blast
qed simp

lemma online_calls_length: "length (online_calls e s) \<le> 12"
  by (simp add: online_calls_def)

lemma loop_returns:
  assumes "WiFi_status_ret e n = WL_CONNECTED"
  shows "\<exists>out. loop e s = Some out \<and>
           length (since s (final out)) \<le> 3 * n + 2 * length (tb_loop_calls e) + 14"
proof -
  from reconnect_returns[of "WiFi_status_ret e" n s, OF assms] obtain s1 where
    r: "reconnect (WiFi_status_ret e) s = Some (True, s1)"
    and l1: "length (trace s1) \<le> length (trace s) + 3 * n + 2" by blast
  from loop_online_frame[of e] obtain cevs where
    c: "length cevs \<le> 2 * length (tb_loop_calls e)"
    "\<And>s. trace (final (loop_online e s)) = trace s @ online_calls e s @ cevs"
    by blast
  from r have l: "loop e s = Some (loop_online e s1)" by (simp add: loop_def)
  have "length (trace (final (loop_online e s1))) \<le>
          length (trace s) + 3 * n + 2 + 12 + 2 * length (tb_loop_calls e)"
    using c(1) c(2)[of s1] l1 online_calls_length[of e s1] by simp
  then have "length (since s (final (loop_online e s1))) \<le>
          3 * n + 2 * length (tb_loop_calls e) + 14"
    by (simp add: since_def)
  with l show ?thesis by blast
qed

lemma sketch_setup_frame:
  assumes "sketch_setup status s = Some s'"
  shows "currentFWSent s' = currentFWSent s \<and> updateRequestSent s' = updateRequestSent s \<and>
         (\<exists>evs. trace s' = trace s @ evs \<and> list_all (\<lambda>ev. \<not> is_protocol ev) evs)"
proof -
  let ?t = "emits [Serial_begin SERIAL_DEBUG_BAUD, Delay 1000] s"
  from assms obtain s1 where i: "initializeWiFi status 0 ?t = Some s1"
    and s': "s' = emit (PinMode LED_BUILTIN OUTPUT) s1"
    by (auto simp: sketch_setup_def split: bind_splits)
  from initializeWiFi_frame[OF i] obtain evs where
    f: "currentFWSent s1 = currentFWSent ?t" "updateRequestSent s1 = updateRequestSent ?t"
    "trace s1 = trace ?t @ evs" "list_all is_wifi_io evs"
    by blast
  from f(4) have q: "list_all (\<lambda>ev. \<not> is_protocol ev) evs"
    using wifi_io_quiet by (induction evs) auto
  from f(1-3) s' have "currentFWSent s' = currentFWSent s" "updateRequestSent s' = updateRequestSent s"
    "trace s' = trace s @ ([Serial_begin SERIAL_DEBUG_BAUD, Delay 1000] @ evs
        @ [PinMode LED_BUILTIN OUTPUT])"
    by (simp_all add: emits_def emit_def)
  moreover from q have "list_all (\<lambda>ev. \<not> is_protocol ev) ([Serial_begin SERIAL_DEBUG_BAUD, Delay 1000] @ evs
        @ [PinMode LED_BUILTIN OUTPUT])" by simp
  ultimately show ?thesis by blast
qed

lemma sketch_setup_returns:
  "(\<exists>s'. sketch_setup status s = Some s') \<longleftrightarrow> (\<exists>n. status n = WL_CONNECTED)"
proof
  assume "\<exists>s'. sketch_setup status s = Some s'"
  then obtain s1 where
    "initializeWiFi status 0 (emits [Serial_begin SERIAL_DEBUG_BAUD, Delay 1000] s) = Some s1"
    by (auto simp: sketch_setup_def split: bind_splits)
  from initializeWiFi_needs[OF this] show "\<exists>n. status n = WL_CONNECTED" by simp
next
  assume "\<exists>n. status n = WL_CONNECTED"
  then obtain n where "status (0 + n) = WL_CONNECTED" by auto
  from initializeWiFi_returns[of status 0 n, OF this]
  show "\<exists>s'. sketch_setup status s = Some s'"
    by (simp add: sketch_setup_def) (metis bind.bind_lunit)
qed

lemma loop_list_all:
  assumes "loop e s = Some out" "list_all P (trace s)"
    and "\<And>ev. is_wifi_io ev \<Longrightarrow> P ev" "\<And>ev. is_callback_io ev \<Longrightarrow> P ev"
    and "list_all P (online_calls e s)"
  shows "list_all P (trace (final out))"
proof -
  from loop_since[OF assms(1)] obtain wevs cevs where f:
    "list_all is_wifi_io wevs" "list_all is_callback_io cevs"
    "since s (final out) = wevs @ online_calls e s @ cevs"
    "trace (final out) = trace s @ since s (final out)"
    by blast
  have "list_all P wevs" using f(1) assms(3) by (induction wevs) auto
  moreover have "list_all P cevs" using f(2) assms(4) by (induction cevs) auto
  ultimately show ?thesis using f(3,4) assms(2,5) by simp
qed

lemma loops_list_all:
  assumes "\<And>ev. is_wifi_io ev \<Longrightarrow> P ev" "\<And>ev. is_callback_io ev \<Longrightarrow> P ev"
    and "\<And>e s. list_all P (online_calls e s)"
  shows "loops es s = Some out \<Longrightarrow> list_all P (trace s) \<Longrightarrow> list_all P (trace (final out))"
proof (induction es arbitrary: s)
  case Nil
  then show ?case by auto
next
  case (Cons e es)
  from Cons.prems(1) obtain o1 where l: "loop e s = Some o1"
    by (auto split: option.splits)
  have p: "list_all P (trace (final o1))"
    by (rule loop_list_all[OF l Cons.prems(2) assms(1,2) assms(3)])
  show ?case
  proof (cases o1)
    case (Restarted s')
    with l Cons.prems(1) p show ?thesis by auto
  next
    case (Returned s')
    with l Cons.prems(1) have "loops es s' = Some out" by simp
    from Cons.IH[OF this] p Returned show ?thesis by simp
  qed
qed

text \<open>A subscription, if the call is one, hands over \<open>callback\<close>.\<close>

lemma subscribes_callback:
  assumes "arduino_main status es = Some out"
    and "Subscribe_Firmware_Update c r \<in> set (trace (final out))"
  shows "c = callback"
proof -
  let ?P = "\<lambda>ev. \<forall>c r. ev = Subscribe_Firmware_Update c r \<longrightarrow> c = callback"
  from assms(1) obtain s0 where s: "sketch_setup status boot = Some s0"
    and l: "loops es s0 = Some out"
    by (auto simp: arduino_main_def split: bind_splits)
  from sketch_setup_frame[OF s] obtain evs where
    "trace s0 = trace boot @ evs" "list_all (\<lambda>ev. \<not> is_protocol ev) evs" by blast
  then have "list_all ?P (trace s0)"
    by (auto simp: boot_def list_all_iff)
  moreover have "\<And>ev. is_wifi_io ev \<Longrightarrow> ?P ev" by auto
  moreover have "\<And>ev. is_callback_io ev \<Longrightarrow> ?P ev" by auto
  moreover have "\<And>e s. list_all ?P (online_calls e s)" by (simp add: online_calls_def)
  ultimately have "list_all ?P (trace (final out))"
    using loops_list_all[where P = ?P, OF _ _ _ l] by blast
  with assms(2) show ?thesis by (auto simp: list_all_iff)
qed

lemma loop_restart:
  assumes "loop e s = Some out"
  shows "(Esp_restart \<in> set (since s (final out)) \<longleftrightarrow> is_Restarted out) \<and>
         (is_Restarted out \<longrightarrow> last (since s (final out)) = Esp_restart)"
proof -
  from loop_since[OF assms] obtain wevs cevs where f:
    "list_all is_wifi_io wevs"
    "Esp_restart \<in> set cevs \<longleftrightarrow> up e \<and> Updated True \<in> set (tb_loop_calls e)"
    "up e \<and> Updated True \<in> set (tb_loop_calls e) \<longrightarrow> last cevs = Esp_restart"
    "since s (final out) = wevs @ online_calls e s @ cevs"
    by blast
  have w: "Esp_restart \<notin> set wevs" using f(1) wifi_io_quiet by (auto simp: list_all_iff)
  have o: "Esp_restart \<notin> set (online_calls e s)" by (simp add: online_calls_def)
  have r: "is_Restarted out \<longleftrightarrow> up e \<and> Updated True \<in> set (tb_loop_calls e)"
    by (rule loop_flags(3)[OF assms])
  have "Esp_restart \<in> set (since s (final out)) \<longleftrightarrow> is_Restarted out"
    using f(2,4) w o r by simp
  moreover have "last (since s (final out)) = Esp_restart" if "is_Restarted out"
  proof -
    from that r f(2) have "cevs \<noteq> []" by auto
    with f(3,4) r that show ?thesis by simp
  qed
  ultimately show ?thesis by blast
qed


lemma loop_checks_server:
  assumes "loop e s = Some out"
  shows "Tb_connected (Tb_connected_ret e) \<in> set (since s (final out))"
proof -
  from loop_since[OF assms] obtain wevs cevs where
    "since s (final out) = wevs @ online_calls e s @ cevs" by blast
  then show ?thesis by (simp add: online_calls_def)
qed

subsection \<open>The order of the info and the state\<close>

lemma info_precedes_state_append:
  "info_precedes_state p (xs @ ys) \<longleftrightarrow>
     info_precedes_state p xs \<and>
     info_precedes_state (if xs = [] then p else Some (last xs)) ys"
  by (induction p xs rule: info_precedes_state.induct) auto

lemma info_precedes_state_quiet:
  "list_all (\<lambda>ev. \<not> is_protocol ev) xs \<Longrightarrow> info_precedes_state p xs"
proof (induction xs arbitrary: p)
  case Nil
  show ?case by simp
next
  case (Cons ev xs)
  then show ?case by (cases ev) auto
qed

lemma info_precedes_state_online: "info_precedes_state p (online_calls e s)"
  by (simp add: online_calls_def)

lemma quiet_wifi: "list_all is_wifi_io xs \<Longrightarrow> list_all (\<lambda>ev. \<not> is_protocol ev) xs"
  using wifi_io_quiet by (induction xs) auto

lemma quiet_callback: "list_all is_callback_io xs \<Longrightarrow> list_all (\<lambda>ev. \<not> is_protocol ev) xs"
  using callback_io_quiet by (induction xs) auto

lemma loop_info_precedes_state:
  assumes "loop e s = Some out"
  shows "info_precedes_state p (since s (final out))"
proof -
  from loop_since[OF assms] obtain wevs cevs where f:
    "list_all is_wifi_io wevs" "list_all is_callback_io cevs"
    "since s (final out) = wevs @ online_calls e s @ cevs"
    by blast
  have "info_precedes_state p wevs" for p
    by (rule info_precedes_state_quiet[OF quiet_wifi[OF f(1)]])
  moreover have "info_precedes_state p cevs" for p
    by (rule info_precedes_state_quiet[OF quiet_callback[OF f(2)]])
  ultimately show ?thesis
    using f(3) info_precedes_state_online by (simp add: info_precedes_state_append)
qed

lemma loops_info_precedes_state:
  "loops es s = Some out \<Longrightarrow> info_precedes_state p (trace s) \<Longrightarrow>
   info_precedes_state p (trace (final out))"
proof (induction es arbitrary: s)
  case Nil
  then show ?case by auto
next
  case (Cons e es)
  from Cons.prems(1) obtain o1 where l: "loop e s = Some o1"
    by (auto split: option.splits)
  have "trace (final o1) = trace s @ since s (final o1)" by (rule loop_trace[OF l])
  then have p: "info_precedes_state p (trace (final o1))"
    using Cons.prems(2) loop_info_precedes_state[OF l]
    by (simp add: info_precedes_state_append)
  show ?case
  proof (cases o1)
    case (Restarted s')
    with l Cons.prems(1) p show ?thesis by auto
  next
    case (Returned s')
    with l Cons.prems(1) have "loops es s' = Some out" by simp
    from Cons.IH[OF this] p Returned show ?thesis by simp
  qed
qed

lemma arduino_main_info_precedes_state:
  assumes "arduino_main status es = Some out"
  shows "info_precedes_state None (trace (final out))"
proof -
  from assms obtain s0 where s: "sketch_setup status boot = Some s0"
    and l: "loops es s0 = Some out"
    by (auto simp: arduino_main_def split: bind_splits)
  from sketch_setup_frame[OF s] obtain evs where
    "trace s0 = trace boot @ evs" "list_all (\<lambda>ev. \<not> is_protocol ev) evs" by blast
  then have "info_precedes_state None (trace s0)"
    by (simp add: boot_def info_precedes_state_quiet)
  from loops_info_precedes_state[OF l this] show ?thesis .
qed

subsection \<open>The order of the checks and the protocol actions\<close>

lemma gated_wifi:
  "list_all is_wifi_io xs \<Longrightarrow>
   gated w c (xs @ WiFi_status st # ys) = gated (st = WL_CONNECTED) c ys"
proof (induction xs arbitrary: w)
  case Nil
  show ?case by simp
next
  case (Cons ev xs)
  then show ?case by (cases ev) auto
qed

lemma gated_callbacks: "list_all is_callback_io xs \<Longrightarrow> gated w c xs"
proof (induction xs)
  case Nil
  show ?case by simp
next
  case (Cons ev xs)
  then show ?case by (cases ev) auto
qed

lemma gated_online:
  "list_all is_callback_io cevs \<Longrightarrow> gated True c (online_calls e s @ cevs)"
  by (simp add: online_calls_def up_def gated_callbacks)

lemma initializeWiFi_last_poll:
  assumes "initializeWiFi status k s = Some s'"
  shows "\<exists>pre. trace s' = trace s @ pre @
           [WiFi_status WL_CONNECTED, Serial_println ''Connected to AP''] \<and>
         list_all is_wifi_io pre"
proof -
  let ?t = "emits [Serial_println ''Connecting to AP ...'', WiFi_begin WIFI_SSID WIFI_PASSWORD] s"
  from assms obtain s1 where w: "initializeWiFi_while status k ?t = Some s1"
    and s': "s' = emit (Serial_println ''Connected to AP'') s1"
    by (auto simp: initializeWiFi_def split: bind_splits)
  from while_frame[OF w] obtain evs where
    "trace s1 = trace ?t @ evs @ [WiFi_status WL_CONNECTED]" "list_all is_wifi_io evs"
    by blast
  with s' have
    "trace s' = trace s @
       ([Serial_println ''Connecting to AP ...'', WiFi_begin WIFI_SSID WIFI_PASSWORD] @ evs) @
       [WiFi_status WL_CONNECTED, Serial_println ''Connected to AP'']"
    "list_all is_wifi_io
       ([Serial_println ''Connecting to AP ...'', WiFi_begin WIFI_SSID WIFI_PASSWORD] @ evs)"
    by (simp_all add: emits_def emit_def)
  then show ?thesis by blast
qed

lemma reconnect_gated:
  assumes "reconnect status s = Some (r, s')" "\<And>c. gated True c ys"
  shows "gated w c (since s s' @ ys)"
proof (cases "status 0 = WL_CONNECTED")
  case True
  with assms(1) have "trace s' = trace s @ [WiFi_status WL_CONNECTED]"
    by (auto simp: reconnect_def Let_def emit_def emits_def)
  from since_append[OF this] assms(2) show ?thesis by simp
next
  case False
  let ?t = "emit (WiFi_status (status 0)) s"
  from False assms(1) have "initializeWiFi status 1 ?t = Some s'"
    by (auto simp: reconnect_def Let_def split: bind_splits)
  from initializeWiFi_last_poll[OF this] obtain pre where
    "trace s' = trace ?t @ pre @ [WiFi_status WL_CONNECTED, Serial_println ''Connected to AP'']"
    "list_all is_wifi_io pre"
    by blast
  then have t: "trace s' = trace s @ (WiFi_status (status 0) # pre) @
      [WiFi_status WL_CONNECTED, Serial_println ''Connected to AP'']"
    and p: "list_all is_wifi_io (WiFi_status (status 0) # pre)"
    by (simp_all add: emit_def emits_def)
  from since_append[OF t] have
    "since s s' @ ys = (WiFi_status (status 0) # pre) @
       WiFi_status WL_CONNECTED # (Serial_println ''Connected to AP'' # ys)"
    by simp
  then show ?thesis using gated_wifi[OF p] assms(2) by simp
qed

lemma loop_gated:
  assumes "loop e s = Some out"
  shows "gated w c (since s (final out))"
proof -
  from loop_SomeD[OF assms] obtain s1 where
    r: "reconnect (WiFi_status_ret e) s = Some (True, s1)" and out: "out = loop_online e s1"
    by blast
  from reconnect_frame[OF r] obtain wevs where
    t1: "trace s1 = trace s @ wevs" by blast
  from loop_online_frame[of e] obtain cevs where
    c: "list_all is_callback_io cevs"
    "\<And>s. trace (final (loop_online e s)) = trace s @ online_calls e s @ cevs"
    by blast
  from since_append[OF t1] have w: "since s s1 = wevs" .
  from c(2)[of s1] t1 out
  have "trace (final out) = trace s @ (wevs @ online_calls e s1 @ cevs)" by simp
  from since_append[OF this] w
  have "since s (final out) = since s s1 @ (online_calls e s1 @ cevs)" by simp
  moreover have "gated w c (since s s1 @ (online_calls e s1 @ cevs))"
    by (rule reconnect_gated[OF r]) (rule gated_online[OF c(1)])
  ultimately show ?thesis by simp
qed

lemma loop_protocol_needs:
  assumes "loop e s = Some out" "filter is_protocol (since s (final out)) \<noteq> []"
  shows "up e \<and> WiFi_status WL_CONNECTED \<in> set (since s (final out))"
proof -
  from loop_since[OF assms(1)] obtain wevs cevs where
    "WiFi_status WL_CONNECTED \<in> set wevs"
    "since s (final out) = wevs @ online_calls e s @ cevs" by blast
  then have "WiFi_status WL_CONNECTED \<in> set (since s (final out))" by simp
  moreover have "up e" using loop_protocol_down[OF assms(1)] assms(2) by blast
  ultimately show ?thesis by blast
qed

lemma reconnect_quiet:
  assumes "reconnect status s = Some (r, s')"
  shows "currentFWSent s' = currentFWSent s \<and> updateRequestSent s' = updateRequestSent s \<and>
         filter is_protocol (since s s') = []"
proof -
  from reconnect_frame[OF assms] obtain evs where f:
    "currentFWSent s' = currentFWSent s" "updateRequestSent s' = updateRequestSent s"
    "trace s' = trace s @ evs" "list_all is_wifi_io evs" by blast
  have "filter is_protocol evs = []"
    using f(4) wifi_io_quiet by (blast intro: filter_none)
  with since_append[OF f(3)] f(1,2) show ?thesis by simp
qed

subsection \<open>The flags and the recorded calls\<close>

lemma loop_protocol:
  assumes "loop e s = Some out"
  shows "filter is_protocol (since s (final out)) =
     (if up e
      then (if currentFWSent s then []
            else Firmware_Send_Info CURRENT_FIRMWARE_TITLE CURRENT_FIRMWARE_VERSION
                   (Firmware_Send_Info_ret e) #
                 (if Firmware_Send_Info_ret e
                  then [Firmware_Send_State FW_STATE_UPDATED (Firmware_Send_State_ret e)]
                  else [])) @
           (if updateRequestSent s then []
            else [Subscribe_Firmware_Update callback (Subscribe_Firmware_Update_ret e)]) @
           [Tb_loop]
      else [])"
proof -
  from loop_since[OF assms] obtain wevs cevs where f:
    "list_all is_wifi_io wevs" "list_all is_callback_io cevs"
    "since s (final out) = wevs @ online_calls e s @ cevs"
    by blast
  have "filter is_protocol wevs = []" "filter is_protocol cevs = []"
    using f(1,2) wifi_io_quiet callback_io_quiet by (blast intro: filter_none)+
  with f(3) show ?thesis by (simp add: online_calls_def up_def)
qed

lemma loop_flag_calls:
  assumes "loop e s = Some out"
  shows "currentFWSent (final out) =
           (currentFWSent s \<or>
            Firmware_Send_State FW_STATE_UPDATED True \<in> set (since s (final out)))"
    and "updateRequestSent (final out) =
           (updateRequestSent s \<or>
            Subscribe_Firmware_Update callback True \<in> set (since s (final out)))"
proof -
  have "Firmware_Send_State FW_STATE_UPDATED True \<in> set (since s (final out)) \<longleftrightarrow>
        Firmware_Send_State FW_STATE_UPDATED True \<in>
          set (filter is_fw_send (since s (final out)))"
    by simp
  then show "currentFWSent (final out) =
           (currentFWSent s \<or>
            Firmware_Send_State FW_STATE_UPDATED True \<in> set (since s (final out)))"
    using loop_fw_sends[OF assms] loop_flags(1)[OF assms] by auto
  have "Subscribe_Firmware_Update callback True \<in> set (since s (final out)) \<longleftrightarrow>
        Subscribe_Firmware_Update callback True \<in>
          set (filter is_subscribe (since s (final out)))"
    by simp
  then show "updateRequestSent (final out) =
           (updateRequestSent s \<or>
            Subscribe_Firmware_Update callback True \<in> set (since s (final out)))"
    using loop_subscribes[OF assms] loop_flags(2)[OF assms] by auto
qed

lemma loops_flag_calls:
  "loops es s = Some out \<Longrightarrow>
   trace (final out) = trace s @ since s (final out) \<and>
   currentFWSent (final out) =
     (currentFWSent s \<or>
      Firmware_Send_State FW_STATE_UPDATED True \<in> set (since s (final out))) \<and>
   updateRequestSent (final out) =
     (updateRequestSent s \<or>
      Subscribe_Firmware_Update callback True \<in> set (since s (final out)))"
proof (induction es arbitrary: s)
  case Nil
  then show ?case by (auto simp: since_def)
next
  case (Cons e es)
  from Cons.prems obtain o1 where l: "loop e s = Some o1"
    by (auto split: option.splits)
  note tr = loop_trace[OF l] and fl = loop_flag_calls[OF l]
  show ?case
  proof (cases o1)
    case (Restarted s')
    with l Cons.prems have "out = o1" by simp
    with tr fl show ?thesis by simp
  next
    case (Returned s')
    with l Cons.prems have "loops es s' = Some out" by simp
    from Cons.IH[OF this] have ih:
      "trace (final out) = trace s' @ since s' (final out)"
      "currentFWSent (final out) =
         (currentFWSent s' \<or>
          Firmware_Send_State FW_STATE_UPDATED True \<in> set (since s' (final out)))"
      "updateRequestSent (final out) =
         (updateRequestSent s' \<or>
          Subscribe_Firmware_Update callback True \<in> set (since s' (final out)))"
      by simp_all
    from ih(1) tr Returned
    have t: "trace (final out) = trace s @ (since s s' @ since s' (final out))" by simp
    from since_append[OF t]
    have sn: "since s (final out) = since s s' @ since s' (final out)" .
    from t sn have "trace (final out) = trace s @ since s (final out)" by simp
    moreover from ih(2) fl(1) Returned sn
    have "currentFWSent (final out) =
     (currentFWSent s \<or>
      Firmware_Send_State FW_STATE_UPDATED True \<in> set (since s (final out)))"
      by auto
    moreover from ih(3) fl(2) Returned sn
    have "updateRequestSent (final out) =
     (updateRequestSent s \<or>
      Subscribe_Firmware_Update callback True \<in> set (since s (final out)))"
      by auto
    ultimately show ?thesis by blast
  qed
qed

lemma arduino_main_flag_calls:
  assumes "arduino_main status es = Some out"
  shows "currentFWSent (final out) =
           (Firmware_Send_State FW_STATE_UPDATED True \<in> set (trace (final out)))"
    and "updateRequestSent (final out) =
           (Subscribe_Firmware_Update callback True \<in> set (trace (final out)))"
proof -
  from assms obtain s0 where s: "sketch_setup status boot = Some s0"
    and l: "loops es s0 = Some out"
    by (auto simp: arduino_main_def split: bind_splits)
  from sketch_setup_frame[OF s] obtain evs where f:
    "currentFWSent s0 = currentFWSent boot" "updateRequestSent s0 = updateRequestSent boot"
    "trace s0 = trace boot @ evs" "list_all (\<lambda>ev. \<not> is_protocol ev) evs" by blast
  from f(4) have q: "Firmware_Send_State FW_STATE_UPDATED True \<notin> set evs"
    "Subscribe_Firmware_Update callback True \<notin> set evs"
    by (auto simp: list_all_iff)
  from f(3) have t0: "trace s0 = evs" by (simp add: boot_def)
  from loops_flag_calls[OF l] t0 f(1,2) q
  show "currentFWSent (final out) =
           (Firmware_Send_State FW_STATE_UPDATED True \<in> set (trace (final out)))"
    and "updateRequestSent (final out) =
           (Subscribe_Firmware_Update callback True \<in> set (trace (final out)))"
    by (auto simp: boot_def)
qed

subsection \<open>A call that starts with the WiFi down\<close>

lemma reconnect_waits:
  assumes "reconnect status s = Some (r, s')" "status 0 \<noteq> WL_CONNECTED"
  shows "WiFi_begin WIFI_SSID WIFI_PASSWORD \<in> set (since s s')"
proof -
  let ?t = "emit (WiFi_status (status 0)) s"
  from assms have "initializeWiFi status 1 ?t = Some s'"
    by (auto simp: reconnect_def Let_def split: bind_splits)
  then obtain s1 where
    w: "initializeWiFi_while status 1
          (emits [Serial_println ''Connecting to AP ...'',
                  WiFi_begin WIFI_SSID WIFI_PASSWORD] ?t) = Some s1"
    and s': "s' = emit (Serial_println ''Connected to AP'') s1"
    by (auto simp: initializeWiFi_def split: bind_splits)
  from while_frame[OF w] obtain evs where
    "trace s1 = trace (emits [Serial_println ''Connecting to AP ...'',
                  WiFi_begin WIFI_SSID WIFI_PASSWORD] ?t) @ evs @ [WiFi_status WL_CONNECTED]"
    by blast
  with s' have "trace s' = trace s @
      (WiFi_status (status 0) # Serial_println ''Connecting to AP ...'' #
       WiFi_begin WIFI_SSID WIFI_PASSWORD # evs @
       [WiFi_status WL_CONNECTED, Serial_println ''Connected to AP''])"
    by (simp add: emit_def emits_def)
  from since_append[OF this] show ?thesis by simp
qed

lemma loop_waits:
  assumes "loop e s = Some out" "WiFi_status_ret e 0 \<noteq> WL_CONNECTED"
  shows "WiFi_begin WIFI_SSID WIFI_PASSWORD \<in> set (since s (final out))"
proof -
  from loop_SomeD[OF assms(1)] obtain s1 where
    r: "reconnect (WiFi_status_ret e) s = Some (True, s1)" and out: "out = loop_online e s1"
    by blast
  from reconnect_frame[OF r] obtain wevs where
    t1: "trace s1 = trace s @ wevs" by blast
  from loop_online_frame[of e] obtain cevs where
    c: "\<And>s. trace (final (loop_online e s)) = trace s @ online_calls e s @ cevs"
    by blast
  from since_append[OF t1] have w: "since s s1 = wevs" .
  from c[of s1] t1 out
  have "trace (final out) = trace s @ (wevs @ online_calls e s1 @ cevs)" by simp
  from since_append[OF this] w
  have "since s (final out) = since s s1 @ (online_calls e s1 @ cevs)" by simp
  with reconnect_waits[OF r assms(2)] show ?thesis by simp
qed

subsection \<open>Evaluating the samples\<close>

lemmas sample_defs =
  env_first_def env_steady_def env_state_fails_def env_server_down_def env_wifi_down_def
  env_wifi_late_def env_update_done_def env_update_failed_def wifi_up_def wifi_down_def
  wifi_late_def subscribed_def boot_def

lemmas sketch_defs =
  loop_def loop_online_def loop_connected_def send_current_fw_def subscribe_update_def
  tb_loop_def blink_def updatedCallback_def progressCallback_def reconnect_def
  initializeWiFi_def initializeWiFi_while.simps sketch_setup_def arduino_main_def
  emit_def emits_def callback_def
  CURRENT_FIRMWARE_TITLE_def CURRENT_FIRMWARE_VERSION_def FW_STATE_UPDATED_def
  FIRMWARE_FAILURE_RETRIES_def FIRMWARE_PACKET_SIZE_def WIFI_SSID_def WIFI_PASSWORD_def
  TOKEN_def TONYSPACE_SERVER_def TONYSPACE_PORT_def SERIAL_DEBUG_BAUD_def

section \<open>The claims\<close>

subsection \<open>C1: an update is needed iff the titles agree and the versions differ\<close>

text \<open>
  C1. For every running and announced descriptor, \<^verbatim>\<open>is_update_needed\<close> is true iff the
  titles are equal and the versions differ. No order of versions enters: the check is
  symmetric in its two arguments, so whenever a step from one version to another is eligible
  the step back is eligible too. For the title and version the sketch hands to the client,
  an announcement is eligible iff it is for \<^verbatim>\<open>ESPino32\<close> and not for \<^verbatim>\<open>1.0.0\<close>.
\<close>

theorem is_update_needed_iff:
  "(is_update_needed running announced \<longleftrightarrow>
      title running = title announced \<and> version running \<noteq> version announced) \<and>
   (is_update_needed running announced \<longrightarrow> is_update_needed announced running) \<and>
   (title running = cb_title callback \<and> version running = cb_version callback \<longrightarrow>
      (is_update_needed running announced \<longleftrightarrow>
         title announced = ''ESPino32'' \<and> version announced \<noteq> ''1.0.0''))"
  by (auto simp: is_update_needed_def callback_def CURRENT_FIRMWARE_TITLE_def
      CURRENT_FIRMWARE_VERSION_def)

theorem is_update_needed_iff_witness:
  "is_update_needed
     \<lparr>title = ''ESPino32'', version = ''1.0.0'', total_size = 12288, checksum = [],
      chunk_size = 4096\<rparr>
     \<lparr>title = ''ESPino32'', version = ''0.9.0'', total_size = 12288, checksum = [],
      chunk_size = 4096\<rparr> \<and>
   is_update_needed
     \<lparr>title = ''ESPino32'', version = ''0.9.0'', total_size = 12288, checksum = [],
      chunk_size = 4096\<rparr>
     \<lparr>title = ''ESPino32'', version = ''1.0.0'', total_size = 12288, checksum = [],
      chunk_size = 4096\<rparr> \<and>
   cb_title callback = ''ESPino32'' \<and> cb_version callback = ''1.0.0''"
  using is_update_needed_iff
    [of "\<lparr>title = ''ESPino32'', version = ''1.0.0'', total_size = 12288, checksum = [],
          chunk_size = 4096\<rparr>"
        "\<lparr>title = ''ESPino32'', version = ''0.9.0'', total_size = 12288, checksum = [],
          chunk_size = 4096\<rparr>"]
  by (simp add: callback_def CURRENT_FIRMWARE_TITLE_def CURRENT_FIRMWARE_VERSION_def)

subsection \<open>C2: the firmware info and state are sent until both succeed\<close>

text \<open>
  Counterexample to C2 as stated. In the first call of \<^verbatim>\<open>loop\<close> the info is sent with
  success and the state is not; the flag stays unset, and the second call sends the info,
  which had succeeded, once more.
\<close>

theorem fw_info_resent_after_success:
  "filter is_fw_send (run_trace (loops [env_state_fails, env_steady] boot)) =
     [Firmware_Send_Info ''ESPino32'' ''1.0.0'' True, Firmware_Send_State ''UPDATED'' False,
      Firmware_Send_Info ''ESPino32'' ''1.0.0'' True, Firmware_Send_State ''UPDATED'' True]"
  by (simp add: sample_defs sketch_defs)

text \<open>
  C2, amended. One flag, \<^verbatim>\<open>currentFWSent\<close>, guards the two sends together. A call of
  \<^verbatim>\<open>loop\<close> that finds the flag unset and reaches the server sends the info, and sends the
  state only if the info succeeded; the flag is set iff both succeeded, so after a failure of
  either the pair is sent again from the info by the next call that reaches the server. A
  call that finds the flag set sends neither, and the flag stays set: from then on no later
  call of the run sends either.
\<close>

theorem fw_pair_guarded_by_one_flag:
  "(loop e s = Some out \<longrightarrow>
      filter is_fw_send (since s (final out)) =
        (if up e \<and> \<not> currentFWSent s
         then Firmware_Send_Info CURRENT_FIRMWARE_TITLE CURRENT_FIRMWARE_VERSION
                (Firmware_Send_Info_ret e) #
              (if Firmware_Send_Info_ret e
               then [Firmware_Send_State FW_STATE_UPDATED (Firmware_Send_State_ret e)] else [])
         else []) \<and>
      currentFWSent (final out) =
        (currentFWSent s \<or> up e \<and> Firmware_Send_Info_ret e \<and> Firmware_Send_State_ret e)) \<and>
   (loops es t = Some out' \<and> currentFWSent t \<longrightarrow>
      currentFWSent (final out') \<and> filter is_fw_send (since t (final out')) = [])"
  using loop_fw_sends[of e s out] loop_flags(1)[of e s out] loops_fw_sent[of es t out']
  by blast

theorem fw_pair_guarded_by_one_flag_witness:
  "loop env_state_fails boot =
     Some (Returned
       \<lparr>currentFWSent = False, updateRequestSent = True,
        trace =
          [WiFi_status WL_CONNECTED, Tb_connected False,
           Serial_printf ''Connecting to: (%s) with token (%s)\<newline>''
             [''vsmqtt.space'', ''YOUR_DEVICE_ACCESS_TOKEN''],
           Tb_connect ''vsmqtt.space'' ''YOUR_DEVICE_ACCESS_TOKEN'' 8080 True,
           Firmware_Send_Info ''ESPino32'' ''1.0.0'' True,
           Firmware_Send_State ''UPDATED'' False,
           Serial_println ''Firwmare Update Subscription...'',
           Subscribe_Firmware_Update callback True,
           DigitalWrite LED_BUILTIN HIGH, Delay 1000,
           DigitalWrite LED_BUILTIN LOW, Delay 1000, Tb_loop]\<rparr>) \<and>
   loops [env_steady, env_update_failed] subscribed =
     Some (Returned
       \<lparr>currentFWSent = True, updateRequestSent = True,
        trace =
          [WiFi_status WL_CONNECTED, Tb_connected True,
           DigitalWrite LED_BUILTIN HIGH, Delay 1000,
           DigitalWrite LED_BUILTIN LOW, Delay 1000, Tb_loop,
           WiFi_status WL_CONNECTED, Tb_connected True,
           DigitalWrite LED_BUILTIN HIGH, Delay 1000,
           DigitalWrite LED_BUILTIN LOW, Delay 1000, Tb_loop,
           Serial_println ''Downloading firmware failed'']\<rparr>) \<and>
   currentFWSent subscribed \<and>
   filter is_fw_send (since subscribed (final (Returned
       \<lparr>currentFWSent = True, updateRequestSent = True,
        trace =
          [WiFi_status WL_CONNECTED, Tb_connected True,
           DigitalWrite LED_BUILTIN HIGH, Delay 1000,
           DigitalWrite LED_BUILTIN LOW, Delay 1000, Tb_loop,
           WiFi_status WL_CONNECTED, Tb_connected True,
           DigitalWrite LED_BUILTIN HIGH, Delay 1000,
           DigitalWrite LED_BUILTIN LOW, Delay 1000, Tb_loop,
           Serial_println ''Downloading firmware failed'']\<rparr>))) = []"
proof -
  let ?X = "\<lparr>currentFWSent = False, updateRequestSent = True,
        trace =
          [WiFi_status WL_CONNECTED, Tb_connected False,
           Serial_printf ''Connecting to: (%s) with token (%s)\<newline>''
             [''vsmqtt.space'', ''YOUR_DEVICE_ACCESS_TOKEN''],
           Tb_connect ''vsmqtt.space'' ''YOUR_DEVICE_ACCESS_TOKEN'' 8080 True,
           Firmware_Send_Info ''ESPino32'' ''1.0.0'' True,
           Firmware_Send_State ''UPDATED'' False,
           Serial_println ''Firwmare Update Subscription...'',
           Subscribe_Firmware_Update callback True,
           DigitalWrite LED_BUILTIN HIGH, Delay 1000,
           DigitalWrite LED_BUILTIN LOW, Delay 1000, Tb_loop]\<rparr>"
  let ?Y = "\<lparr>currentFWSent = True, updateRequestSent = True,
        trace =
          [WiFi_status WL_CONNECTED, Tb_connected True,
           DigitalWrite LED_BUILTIN HIGH, Delay 1000,
           DigitalWrite LED_BUILTIN LOW, Delay 1000, Tb_loop,
           WiFi_status WL_CONNECTED, Tb_connected True,
           DigitalWrite LED_BUILTIN HIGH, Delay 1000,
           DigitalWrite LED_BUILTIN LOW, Delay 1000, Tb_loop,
           Serial_println ''Downloading firmware failed'']\<rparr>"
  have h1: "loop env_state_fails boot = Some (Returned ?X)"
    by (simp add: sample_defs sketch_defs)
  have h2: "loops [env_steady, env_update_failed] subscribed = Some (Returned ?Y)"
    by (simp add: sample_defs sketch_defs)
  have h3: "currentFWSent subscribed" by (simp add: subscribed_def)
  from fw_pair_guarded_by_one_flag
         [of env_state_fails boot "Returned ?X" "[env_steady, env_update_failed]" subscribed
             "Returned ?Y"]
       h1 h2 h3
  show ?thesis
    by simp
qed

subsection \<open>C3: the state is sent only after the info has succeeded\<close>

text \<open>
  C3. In every run of the sketch from its start, each \<^verbatim>\<open>Firmware_Send_State\<close> sends
  \<^verbatim>\<open>UPDATED\<close> and is made directly after a \<^verbatim>\<open>Firmware_Send_Info\<close> of the current title
  and version that returned true. The same holds for the calls of any single call of
  \<^verbatim>\<open>loop\<close>, whatever call came before it.
\<close>

theorem state_sent_only_after_info:
  "(arduino_main status es = Some out \<longrightarrow> info_precedes_state None (trace (final out))) \<and>
   (loop e s = Some out' \<longrightarrow> info_precedes_state p (since s (final out')))"
  using arduino_main_info_precedes_state[of status es out]
    loop_info_precedes_state[of e s out' p]
  by blast

theorem state_sent_only_after_info_witness:
  "arduino_main wifi_up [env_first] =
     Some (Returned
       \<lparr>currentFWSent = True, updateRequestSent = True,
        trace =
          [Serial_begin 115200, Delay 1000, Serial_println ''Connecting to AP ...'',
           WiFi_begin ''YOUR_WIFI_SSID'' ''YOUR_WIFI_PASSWORD'',
           WiFi_status WL_CONNECTED, Serial_println ''Connected to AP'',
           PinMode LED_BUILTIN OUTPUT,
           WiFi_status WL_CONNECTED, Tb_connected False,
           Serial_printf ''Connecting to: (%s) with token (%s)\<newline>''
             [''vsmqtt.space'', ''YOUR_DEVICE_ACCESS_TOKEN''],
           Tb_connect ''vsmqtt.space'' ''YOUR_DEVICE_ACCESS_TOKEN'' 8080 True,
           Firmware_Send_Info ''ESPino32'' ''1.0.0'' True,
           Firmware_Send_State ''UPDATED'' True,
           Serial_println ''Firwmare Update Subscription...'',
           Subscribe_Firmware_Update callback True,
           DigitalWrite LED_BUILTIN HIGH, Delay 1000,
           DigitalWrite LED_BUILTIN LOW, Delay 1000, Tb_loop]\<rparr>) \<and>
   info_precedes_state None
     [Serial_begin 115200, Delay 1000, Serial_println ''Connecting to AP ...'',
      WiFi_begin ''YOUR_WIFI_SSID'' ''YOUR_WIFI_PASSWORD'',
      WiFi_status WL_CONNECTED, Serial_println ''Connected to AP'',
      PinMode LED_BUILTIN OUTPUT,
      WiFi_status WL_CONNECTED, Tb_connected False,
      Serial_printf ''Connecting to: (%s) with token (%s)\<newline>''
        [''vsmqtt.space'', ''YOUR_DEVICE_ACCESS_TOKEN''],
      Tb_connect ''vsmqtt.space'' ''YOUR_DEVICE_ACCESS_TOKEN'' 8080 True,
      Firmware_Send_Info ''ESPino32'' ''1.0.0'' True,
      Firmware_Send_State ''UPDATED'' True,
      Serial_println ''Firwmare Update Subscription...'',
      Subscribe_Firmware_Update callback True,
      DigitalWrite LED_BUILTIN HIGH, Delay 1000,
      DigitalWrite LED_BUILTIN LOW, Delay 1000, Tb_loop] \<and>
   loop env_first boot =
     Some (Returned
       \<lparr>currentFWSent = True, updateRequestSent = True,
        trace =
          [WiFi_status WL_CONNECTED, Tb_connected False,
           Serial_printf ''Connecting to: (%s) with token (%s)\<newline>''
             [''vsmqtt.space'', ''YOUR_DEVICE_ACCESS_TOKEN''],
           Tb_connect ''vsmqtt.space'' ''YOUR_DEVICE_ACCESS_TOKEN'' 8080 True,
           Firmware_Send_Info ''ESPino32'' ''1.0.0'' True,
           Firmware_Send_State ''UPDATED'' True,
           Serial_println ''Firwmare Update Subscription...'',
           Subscribe_Firmware_Update callback True,
           DigitalWrite LED_BUILTIN HIGH, Delay 1000,
           DigitalWrite LED_BUILTIN LOW, Delay 1000, Tb_loop]\<rparr>) \<and>
   info_precedes_state None
     [WiFi_status WL_CONNECTED, Tb_connected False,
      Serial_printf ''Connecting to: (%s) with token (%s)\<newline>''
        [''vsmqtt.space'', ''YOUR_DEVICE_ACCESS_TOKEN''],
      Tb_connect ''vsmqtt.space'' ''YOUR_DEVICE_ACCESS_TOKEN'' 8080 True,
      Firmware_Send_Info ''ESPino32'' ''1.0.0'' True,
      Firmware_Send_State ''UPDATED'' True,
      Serial_println ''Firwmare Update Subscription...'',
      Subscribe_Firmware_Update callback True,
      DigitalWrite LED_BUILTIN HIGH, Delay 1000,
      DigitalWrite LED_BUILTIN LOW, Delay 1000, Tb_loop] \<and>
   \<not> info_precedes_state None
     [Firmware_Send_Info ''ESPino32'' ''1.0.0'' False, Firmware_Send_State ''UPDATED'' True]"
proof -
  let ?tr = "[Serial_begin 115200, Delay 1000, Serial_println ''Connecting to AP ...'',
      WiFi_begin ''YOUR_WIFI_SSID'' ''YOUR_WIFI_PASSWORD'',
      WiFi_status WL_CONNECTED, Serial_println ''Connected to AP'',
      PinMode LED_BUILTIN OUTPUT,
      WiFi_status WL_CONNECTED, Tb_connected False,
      Serial_printf ''Connecting to: (%s) with token (%s)\<newline>''
        [''vsmqtt.space'', ''YOUR_DEVICE_ACCESS_TOKEN''],
      Tb_connect ''vsmqtt.space'' ''YOUR_DEVICE_ACCESS_TOKEN'' 8080 True,
      Firmware_Send_Info ''ESPino32'' ''1.0.0'' True,
      Firmware_Send_State ''UPDATED'' True,
      Serial_println ''Firwmare Update Subscription...'',
      Subscribe_Firmware_Update callback True,
      DigitalWrite LED_BUILTIN HIGH, Delay 1000,
      DigitalWrite LED_BUILTIN LOW, Delay 1000, Tb_loop]"
  let ?X = "\<lparr>currentFWSent = True, updateRequestSent = True, trace = ?tr\<rparr>"
  let ?ltr = "[WiFi_status WL_CONNECTED, Tb_connected False,
      Serial_printf ''Connecting to: (%s) with token (%s)\<newline>''
        [''vsmqtt.space'', ''YOUR_DEVICE_ACCESS_TOKEN''],
      Tb_connect ''vsmqtt.space'' ''YOUR_DEVICE_ACCESS_TOKEN'' 8080 True,
      Firmware_Send_Info ''ESPino32'' ''1.0.0'' True,
      Firmware_Send_State ''UPDATED'' True,
      Serial_println ''Firwmare Update Subscription...'',
      Subscribe_Firmware_Update callback True,
      DigitalWrite LED_BUILTIN HIGH, Delay 1000,
      DigitalWrite LED_BUILTIN LOW, Delay 1000, Tb_loop]"
  let ?L = "\<lparr>currentFWSent = True, updateRequestSent = True, trace = ?ltr\<rparr>"
  have h1: "arduino_main wifi_up [env_first] = Some (Returned ?X)"
    by (simp add: sample_defs sketch_defs)
  have h2: "loop env_first boot = Some (Returned ?L)"
    by (simp add: sample_defs sketch_defs)
  have s: "since boot ?L = ?ltr" by (simp add: since_def boot_def)
  from state_sent_only_after_info[of wifi_up "[env_first]" "Returned ?X" env_first boot
      "Returned ?L" None] h1 h2 s
  have "info_precedes_state None ?tr" "info_precedes_state None ?ltr" by simp_all
  moreover have "\<not> info_precedes_state None
     [Firmware_Send_Info ''ESPino32'' ''1.0.0'' False, Firmware_Send_State ''UPDATED'' True]"
    by (simp add: CURRENT_FIRMWARE_TITLE_def CURRENT_FIRMWARE_VERSION_def)
  ultimately show ?thesis using h1 h2 by blast
qed

subsection \<open>C4: a successful update restarts the device from the callback\<close>

text \<open>
  Counterexample to C4 as stated. Called with success, the completion callback itself calls
  \<^verbatim>\<open>esp_restart()\<close> and does not return.
\<close>

theorem updatedCallback_restarts_in_place:
  "updatedCallback True boot =
     Restarted \<lparr>currentFWSent = False, updateRequestSent = False,
                trace = [Serial_println ''Done, Reboot now'', Esp_restart]\<rparr>"
  by (simp add: updatedCallback_def boot_def emits_def)

text \<open>
  C4, amended. Called with success, \<^verbatim>\<open>updatedCallback\<close> logs \<^verbatim>\<open>Done, Reboot now\<close> and
  restarts the device at once. A call of \<^verbatim>\<open>loop\<close> ends in a restart exactly when the server
  connection is up and \<^verbatim>\<open>tb.loop()\<close> delivers a successful completion; \<^verbatim>\<open>esp_restart()\<close>
  is then the last call it makes, and it is made in no other call of \<^verbatim>\<open>loop\<close>.
\<close>

theorem updatedCallback_success_restarts:
  "updatedCallback True s =
     Restarted (emits [Serial_println ''Done, Reboot now'', Esp_restart] s) \<and>
   (loop e t = Some out \<longrightarrow>
      (is_Restarted out \<longleftrightarrow> up e \<and> Updated True \<in> set (tb_loop_calls e)) \<and>
      (Esp_restart \<in> set (since t (final out)) \<longleftrightarrow> is_Restarted out) \<and>
      (is_Restarted out \<longrightarrow> last (since t (final out)) = Esp_restart))"
  using loop_flags(3)[of e t out] loop_restart[of e t out]
  by (simp add: updatedCallback_def)

theorem updatedCallback_success_restarts_witness:
  "loop env_update_done subscribed =
     Some (Restarted
       \<lparr>currentFWSent = True, updateRequestSent = True,
        trace =
          [WiFi_status WL_CONNECTED, Tb_connected True,
           DigitalWrite LED_BUILTIN HIGH, Delay 1000,
           DigitalWrite LED_BUILTIN LOW, Delay 1000, Tb_loop,
           Serial_printf_ratio ''Progress %.2f%%\<newline>'' 300 3,
           Serial_println ''Done, Reboot now'', Esp_restart]\<rparr>) \<and>
   up env_update_done \<and> Updated True \<in> set (tb_loop_calls env_update_done) \<and>
   last (since subscribed (final (Restarted
       \<lparr>currentFWSent = True, updateRequestSent = True,
        trace =
          [WiFi_status WL_CONNECTED, Tb_connected True,
           DigitalWrite LED_BUILTIN HIGH, Delay 1000,
           DigitalWrite LED_BUILTIN LOW, Delay 1000, Tb_loop,
           Serial_printf_ratio ''Progress %.2f%%\<newline>'' 300 3,
           Serial_println ''Done, Reboot now'', Esp_restart]\<rparr>))) = Esp_restart"
proof -
  let ?X = "\<lparr>currentFWSent = True, updateRequestSent = True,
        trace =
          [WiFi_status WL_CONNECTED, Tb_connected True,
           DigitalWrite LED_BUILTIN HIGH, Delay 1000,
           DigitalWrite LED_BUILTIN LOW, Delay 1000, Tb_loop,
           Serial_printf_ratio ''Progress %.2f%%\<newline>'' 300 3,
           Serial_println ''Done, Reboot now'', Esp_restart]\<rparr>"
  have h: "loop env_update_done subscribed = Some (Restarted ?X)"
    by (simp add: sample_defs sketch_defs)
  from updatedCallback_success_restarts[of boot env_update_done subscribed "Restarted ?X"] h
  show ?thesis by simp
qed

subsection \<open>C5: protocol actions wait for both connections\<close>

text \<open>
  Counterexample to C5 as stated. The call starts while the WiFi is down. It does not return
  early: it waits for the WiFi and then, in the same call, sends, subscribes and polls, and
  sets both flags.
\<close>

theorem loop_waits_for_wifi_then_proceeds:
  "WiFi_status_ret env_wifi_late 0 = WL_DISCONNECTED \<and>
   loop env_wifi_late boot =
     Some (Returned
       \<lparr>currentFWSent = True, updateRequestSent = True,
        trace =
          [WiFi_status WL_DISCONNECTED, Serial_println ''Connecting to AP ...'',
           WiFi_begin ''YOUR_WIFI_SSID'' ''YOUR_WIFI_PASSWORD'',
           WiFi_status WL_DISCONNECTED, Delay 500, Serial_print ''.'',
           WiFi_status WL_CONNECTED, Serial_println ''Connected to AP'',
           Tb_connected True,
           Firmware_Send_Info ''ESPino32'' ''1.0.0'' True,
           Firmware_Send_State ''UPDATED'' True,
           Serial_println ''Firwmare Update Subscription...'',
           Subscribe_Firmware_Update callback True,
           DigitalWrite LED_BUILTIN HIGH, Delay 1000,
           DigitalWrite LED_BUILTIN LOW, Delay 1000, Tb_loop]\<rparr>)"
  by (simp add: sample_defs sketch_defs)

text \<open>
  C5, amended. In every call of \<^verbatim>\<open>loop\<close> that comes back, each protocol action is made
  after a WiFi poll answered \<^verbatim>\<open>WL_CONNECTED\<close> and after \<^verbatim>\<open>tb.connected()\<close> or
  \<^verbatim>\<open>tb.connect(...)\<close> answered true. When neither answers true the call returns early
  without a protocol action and with both flags as they were. While the WiFi is down the
  call does not return early: \<^verbatim>\<open>reconnect\<close> waits, makes no protocol action and leaves the
  flags as they were, and the call goes on once a poll answers \<^verbatim>\<open>WL_CONNECTED\<close>.

  Going on is stated in full. Every call that comes back has asked \<^verbatim>\<open>tb.connected()\<close>, and
  after a first poll other than \<^verbatim>\<open>WL_CONNECTED\<close> it has called \<^verbatim>\<open>WiFi.begin\<close> before. Its
  protocol actions are, when the server is up, the sends its flag still asks for, the
  subscription its flag still asks for and \<^verbatim>\<open>tb.loop()\<close>, in this order, and none otherwise;
  the flags take the results of the guarded calls. And a call whose first poll is not
  \<^verbatim>\<open>WL_CONNECTED\<close> does come back when a later poll is, having done all this.
\<close>

theorem protocol_gated_by_connection:
  "(loop e s = Some out \<longrightarrow>
      gated False False (since s (final out)) \<and>
      (filter is_protocol (since s (final out)) \<noteq> [] \<longrightarrow>
         up e \<and> WiFi_status WL_CONNECTED \<in> set (since s (final out))) \<and>
      (\<not> up e \<longrightarrow>
         \<not> is_Restarted out \<and> filter is_protocol (since s (final out)) = [] \<and>
         currentFWSent (final out) = currentFWSent s \<and>
         updateRequestSent (final out) = updateRequestSent s) \<and>
      (WiFi_status_ret e 0 \<noteq> WL_CONNECTED \<longrightarrow>
         WiFi_begin WIFI_SSID WIFI_PASSWORD \<in> set (since s (final out))) \<and>
      Tb_connected (Tb_connected_ret e) \<in> set (since s (final out)) \<and>
      filter is_protocol (since s (final out)) =
        (if up e
         then (if currentFWSent s then []
               else Firmware_Send_Info CURRENT_FIRMWARE_TITLE CURRENT_FIRMWARE_VERSION
                      (Firmware_Send_Info_ret e) #
                    (if Firmware_Send_Info_ret e
                     then [Firmware_Send_State FW_STATE_UPDATED (Firmware_Send_State_ret e)]
                     else [])) @
              (if updateRequestSent s then []
               else [Subscribe_Firmware_Update callback (Subscribe_Firmware_Update_ret e)]) @
              [Tb_loop]
         else []) \<and>
      currentFWSent (final out) =
        (currentFWSent s \<or> up e \<and> Firmware_Send_Info_ret e \<and> Firmware_Send_State_ret e) \<and>
      updateRequestSent (final out) =
        (updateRequestSent s \<or> up e \<and> Subscribe_Firmware_Update_ret e)) \<and>
   (reconnect status t = Some (r, t') \<longrightarrow>
      currentFWSent t' = currentFWSent t \<and> updateRequestSent t' = updateRequestSent t \<and>
      filter is_protocol (since t t') = []) \<and>
   (WiFi_status_ret e' 0 \<noteq> WL_CONNECTED \<and> WiFi_status_ret e' n = WL_CONNECTED \<longrightarrow>
      (\<exists>out'. loop e' s' = Some out' \<and>
         WiFi_begin WIFI_SSID WIFI_PASSWORD \<in> set (since s' (final out')) \<and>
         Tb_connected (Tb_connected_ret e') \<in> set (since s' (final out')) \<and>
         (Tb_loop \<in> set (since s' (final out')) \<longleftrightarrow> up e') \<and>
         currentFWSent (final out') =
           (currentFWSent s' \<or>
            up e' \<and> Firmware_Send_Info_ret e' \<and> Firmware_Send_State_ret e') \<and>
         updateRequestSent (final out') =
           (updateRequestSent s' \<or> up e' \<and> Subscribe_Firmware_Update_ret e')))"
proof -
  have a: "loop e s = Some out \<longrightarrow> gated False False (since s (final out))"
    using loop_gated[of e s out] by blast
  have b: "loop e s = Some out \<longrightarrow> filter is_protocol (since s (final out)) \<noteq> [] \<longrightarrow>
         up e \<and> WiFi_status WL_CONNECTED \<in> set (since s (final out))"
    using loop_protocol_needs[of e s out] by blast
  have c: "loop e s = Some out \<longrightarrow> \<not> up e \<longrightarrow>
         \<not> is_Restarted out \<and> filter is_protocol (since s (final out)) = [] \<and>
         currentFWSent (final out) = currentFWSent s \<and>
         updateRequestSent (final out) = updateRequestSent s"
    using loop_flags[of e s out] loop_protocol_down[of e s out] by blast
  have d: "loop e s = Some out \<longrightarrow>
      (WiFi_status_ret e 0 \<noteq> WL_CONNECTED \<longrightarrow>
         WiFi_begin WIFI_SSID WIFI_PASSWORD \<in> set (since s (final out))) \<and>
      Tb_connected (Tb_connected_ret e) \<in> set (since s (final out))"
    using loop_waits[of e s out] loop_checks_server[of e s out] by blast
  have f: "loop e s = Some out \<longrightarrow>
      filter is_protocol (since s (final out)) =
        (if up e
         then (if currentFWSent s then []
               else Firmware_Send_Info CURRENT_FIRMWARE_TITLE CURRENT_FIRMWARE_VERSION
                      (Firmware_Send_Info_ret e) #
                    (if Firmware_Send_Info_ret e
                     then [Firmware_Send_State FW_STATE_UPDATED (Firmware_Send_State_ret e)]
                     else [])) @
              (if updateRequestSent s then []
               else [Subscribe_Firmware_Update callback (Subscribe_Firmware_Update_ret e)]) @
              [Tb_loop]
         else [])"
    using loop_protocol[of e s out] by blast
  have g: "loop e s = Some out \<longrightarrow>
      currentFWSent (final out) =
        (currentFWSent s \<or> up e \<and> Firmware_Send_Info_ret e \<and> Firmware_Send_State_ret e) \<and>
      updateRequestSent (final out) =
        (updateRequestSent s \<or> up e \<and> Subscribe_Firmware_Update_ret e)"
    using loop_flags(1,2)[of e s out] by blast
  have h: "reconnect status t = Some (r, t') \<longrightarrow>
      currentFWSent t' = currentFWSent t \<and> updateRequestSent t' = updateRequestSent t \<and>
      filter is_protocol (since t t') = []"
    using reconnect_quiet[of status t r t'] by blast
  have i: "\<exists>out'. loop e' s' = Some out' \<and>
         WiFi_begin WIFI_SSID WIFI_PASSWORD \<in> set (since s' (final out')) \<and>
         Tb_connected (Tb_connected_ret e') \<in> set (since s' (final out')) \<and>
         (Tb_loop \<in> set (since s' (final out')) \<longleftrightarrow> up e') \<and>
         currentFWSent (final out') =
           (currentFWSent s' \<or>
            up e' \<and> Firmware_Send_Info_ret e' \<and> Firmware_Send_State_ret e') \<and>
         updateRequestSent (final out') =
           (updateRequestSent s' \<or> up e' \<and> Subscribe_Firmware_Update_ret e')"
    if w: "WiFi_status_ret e' 0 \<noteq> WL_CONNECTED" "WiFi_status_ret e' n = WL_CONNECTED"
  proof -
    from loop_returns[OF w(2), of s'] obtain out' where l: "loop e' s' = Some out'" by blast
    have "Tb_loop \<in> set (since s' (final out')) \<longleftrightarrow>
          Tb_loop \<in> set (filter is_protocol (since s' (final out')))" by simp
    then have "Tb_loop \<in> set (since s' (final out')) \<longleftrightarrow> up e'"
      using loop_protocol[OF l] by simp
    with l loop_waits[OF l w(1)] loop_checks_server[OF l] loop_flags(1,2)[OF l]
    show ?thesis by blast
  qed
  from a b c d f g h i show ?thesis by blast
qed

theorem protocol_gated_by_connection_witness:
  "loop env_server_down boot =
     Some (Returned
       \<lparr>currentFWSent = False, updateRequestSent = False,
        trace =
          [WiFi_status WL_CONNECTED, Tb_connected False,
           Serial_printf ''Connecting to: (%s) with token (%s)\<newline>''
             [''vsmqtt.space'', ''YOUR_DEVICE_ACCESS_TOKEN''],
           Tb_connect ''vsmqtt.space'' ''YOUR_DEVICE_ACCESS_TOKEN'' 8080 False,
           Serial_println ''Failed to connect'']\<rparr>) \<and>
   \<not> up env_server_down \<and>
   filter is_protocol
     [WiFi_status WL_CONNECTED, Tb_connected False,
      Serial_printf ''Connecting to: (%s) with token (%s)\<newline>''
        [''vsmqtt.space'', ''YOUR_DEVICE_ACCESS_TOKEN''],
      Tb_connect ''vsmqtt.space'' ''YOUR_DEVICE_ACCESS_TOKEN'' 8080 False,
      Serial_println ''Failed to connect''] = [] \<and>
   loop env_update_failed subscribed =
     Some (Returned
       \<lparr>currentFWSent = True, updateRequestSent = True,
        trace =
          [WiFi_status WL_CONNECTED, Tb_connected True,
           DigitalWrite LED_BUILTIN HIGH, Delay 1000,
           DigitalWrite LED_BUILTIN LOW, Delay 1000, Tb_loop,
           Serial_println ''Downloading firmware failed'']\<rparr>) \<and>
   filter is_protocol
     [WiFi_status WL_CONNECTED, Tb_connected True,
      DigitalWrite LED_BUILTIN HIGH, Delay 1000,
      DigitalWrite LED_BUILTIN LOW, Delay 1000, Tb_loop,
      Serial_println ''Downloading firmware failed''] = [Tb_loop] \<and>
   up env_update_failed \<and>
   gated False False
     [WiFi_status WL_CONNECTED, Tb_connected True,
      DigitalWrite LED_BUILTIN HIGH, Delay 1000,
      DigitalWrite LED_BUILTIN LOW, Delay 1000, Tb_loop,
      Serial_println ''Downloading firmware failed''] \<and>
   \<not> gated False False [WiFi_status WL_CONNECTED, Tb_connected False, Tb_loop] \<and>
   reconnect wifi_late boot =
     Some (True,
       \<lparr>currentFWSent = False, updateRequestSent = False,
        trace =
          [WiFi_status WL_DISCONNECTED, Serial_println ''Connecting to AP ...'',
           WiFi_begin ''YOUR_WIFI_SSID'' ''YOUR_WIFI_PASSWORD'',
           WiFi_status WL_DISCONNECTED, Delay 500, Serial_print ''.'',
           WiFi_status WL_CONNECTED, Serial_println ''Connected to AP'']\<rparr>) \<and>
   WiFi_status_ret env_wifi_late 0 \<noteq> WL_CONNECTED \<and>
   WiFi_status_ret env_wifi_late 2 = WL_CONNECTED \<and>
   loop env_wifi_late subscribed =
     Some (Returned
       \<lparr>currentFWSent = True, updateRequestSent = True,
        trace =
          [WiFi_status WL_DISCONNECTED, Serial_println ''Connecting to AP ...'',
           WiFi_begin ''YOUR_WIFI_SSID'' ''YOUR_WIFI_PASSWORD'',
           WiFi_status WL_DISCONNECTED, Delay 500, Serial_print ''.'',
           WiFi_status WL_CONNECTED, Serial_println ''Connected to AP'',
           Tb_connected True, DigitalWrite LED_BUILTIN HIGH, Delay 1000,
           DigitalWrite LED_BUILTIN LOW, Delay 1000, Tb_loop]\<rparr>) \<and>
   WiFi_begin ''YOUR_WIFI_SSID'' ''YOUR_WIFI_PASSWORD'' \<in> set
     [WiFi_status WL_DISCONNECTED, Serial_println ''Connecting to AP ...'',
      WiFi_begin ''YOUR_WIFI_SSID'' ''YOUR_WIFI_PASSWORD'',
      WiFi_status WL_DISCONNECTED, Delay 500, Serial_print ''.'',
      WiFi_status WL_CONNECTED, Serial_println ''Connected to AP'',
      Tb_connected True, DigitalWrite LED_BUILTIN HIGH, Delay 1000,
      DigitalWrite LED_BUILTIN LOW, Delay 1000, Tb_loop] \<and>
   Tb_connected True \<in> set
     [WiFi_status WL_DISCONNECTED, Serial_println ''Connecting to AP ...'',
      WiFi_begin ''YOUR_WIFI_SSID'' ''YOUR_WIFI_PASSWORD'',
      WiFi_status WL_DISCONNECTED, Delay 500, Serial_print ''.'',
      WiFi_status WL_CONNECTED, Serial_println ''Connected to AP'',
      Tb_connected True, DigitalWrite LED_BUILTIN HIGH, Delay 1000,
      DigitalWrite LED_BUILTIN LOW, Delay 1000, Tb_loop] \<and>
   Tb_loop \<in> set
     [WiFi_status WL_DISCONNECTED, Serial_println ''Connecting to AP ...'',
      WiFi_begin ''YOUR_WIFI_SSID'' ''YOUR_WIFI_PASSWORD'',
      WiFi_status WL_DISCONNECTED, Delay 500, Serial_print ''.'',
      WiFi_status WL_CONNECTED, Serial_println ''Connected to AP'',
      Tb_connected True, DigitalWrite LED_BUILTIN HIGH, Delay 1000,
      DigitalWrite LED_BUILTIN LOW, Delay 1000, Tb_loop]"
proof -
  let ?wtr = "[WiFi_status WL_DISCONNECTED, Serial_println ''Connecting to AP ...'',
      WiFi_begin ''YOUR_WIFI_SSID'' ''YOUR_WIFI_PASSWORD'',
      WiFi_status WL_DISCONNECTED, Delay 500, Serial_print ''.'',
      WiFi_status WL_CONNECTED, Serial_println ''Connected to AP'',
      Tb_connected True, DigitalWrite LED_BUILTIN HIGH, Delay 1000,
      DigitalWrite LED_BUILTIN LOW, Delay 1000, Tb_loop]"
  let ?W = "\<lparr>currentFWSent = True, updateRequestSent = True, trace = ?wtr\<rparr>"
  let ?D = "\<lparr>currentFWSent = False, updateRequestSent = False,
        trace =
          [WiFi_status WL_CONNECTED, Tb_connected False,
           Serial_printf ''Connecting to: (%s) with token (%s)\<newline>''
             [''vsmqtt.space'', ''YOUR_DEVICE_ACCESS_TOKEN''],
           Tb_connect ''vsmqtt.space'' ''YOUR_DEVICE_ACCESS_TOKEN'' 8080 False,
           Serial_println ''Failed to connect'']\<rparr>"
  let ?tr = "[WiFi_status WL_CONNECTED, Tb_connected True,
      DigitalWrite LED_BUILTIN HIGH, Delay 1000,
      DigitalWrite LED_BUILTIN LOW, Delay 1000, Tb_loop,
      Serial_println ''Downloading firmware failed'']"
  let ?Y = "\<lparr>currentFWSent = True, updateRequestSent = True, trace = ?tr\<rparr>"
  let ?R = "\<lparr>currentFWSent = False, updateRequestSent = False,
        trace =
          [WiFi_status WL_DISCONNECTED, Serial_println ''Connecting to AP ...'',
           WiFi_begin ''YOUR_WIFI_SSID'' ''YOUR_WIFI_PASSWORD'',
           WiFi_status WL_DISCONNECTED, Delay 500, Serial_print ''.'',
           WiFi_status WL_CONNECTED, Serial_println ''Connected to AP'']\<rparr>"
  have h1: "loop env_server_down boot = Some (Returned ?D)"
    by (simp add: sample_defs sketch_defs)
  have h2: "\<not> up env_server_down" by (simp add: sample_defs up_def)
  have h3: "loop env_update_failed subscribed = Some (Returned ?Y)"
    by (simp add: sample_defs sketch_defs)
  have h4: "filter is_protocol ?tr = [Tb_loop]" by simp
  have h5: "reconnect wifi_late boot = Some (True, ?R)"
    by (simp add: sample_defs sketch_defs)
  have s: "since subscribed ?Y = ?tr" by (simp add: since_def subscribed_def)
  have d: "since boot ?D = trace ?D" by (simp add: since_def boot_def)
  have h7: "WiFi_status_ret env_wifi_late 0 \<noteq> WL_CONNECTED"
    "WiFi_status_ret env_wifi_late 2 = WL_CONNECTED"
    by (simp_all add: sample_defs)
  have h8: "loop env_wifi_late subscribed = Some (Returned ?W)"
    by (simp add: sample_defs sketch_defs)
  have sw: "since subscribed ?W = ?wtr" by (simp add: since_def subscribed_def)
  from protocol_gated_by_connection[of env_wifi_late subscribed "Returned ?W"
      wifi_late boot True ?R env_wifi_late 2 subscribed] h7 h8 sw
  have h9: "WiFi_begin WIFI_SSID WIFI_PASSWORD \<in> set ?wtr"
    "Tb_connected (Tb_connected_ret env_wifi_late) \<in> set ?wtr"
    by simp_all
  from protocol_gated_by_connection[of env_wifi_late subscribed "Returned ?W"
      wifi_late boot True ?R env_wifi_late 2 subscribed] h7
  obtain out' where "loop env_wifi_late subscribed = Some out'"
    "Tb_loop \<in> set (since subscribed (final out')) \<longleftrightarrow> up env_wifi_late"
    by blast
  with h8 sw have h10: "Tb_loop \<in> set ?wtr \<longleftrightarrow> up env_wifi_late" by simp
  from protocol_gated_by_connection[of env_server_down boot "Returned ?D"
      wifi_late boot True ?R] h1 h2 d
  have h6: "filter is_protocol (trace ?D) = []" by simp
  from protocol_gated_by_connection[of env_update_failed subscribed "Returned ?Y"
      wifi_late boot True ?R] h3 h4 h5 s
  have "up env_update_failed" "gated False False ?tr" by simp_all
  moreover have "\<not> gated False False [WiFi_status WL_CONNECTED, Tb_connected False, Tb_loop]"
    by simp
  ultimately show ?thesis using h1 h2 h3 h4 h5 h6 h7 h8 h9 h10
    by (simp add: sample_defs up_def WIFI_SSID_def WIFI_PASSWORD_def)
qed

subsection \<open>C6: a call of \<^verbatim>\<open>loop\<close> returns iff the WiFi connects\<close>

text \<open>
  Counterexample to C6 as stated. When no poll of the WiFi status answers
  \<^verbatim>\<open>WL_CONNECTED\<close>, the call of \<^verbatim>\<open>loop\<close> never comes back.
\<close>

theorem loop_blocks_without_wifi: "loop env_wifi_down boot = None"
  by (rule loop_None) (simp add: sample_defs)

text \<open>
  C6, amended. A call of \<^verbatim>\<open>loop\<close> comes back (returning, or restarting the device) iff
  some poll of the WiFi status during the call answers \<^verbatim>\<open>WL_CONNECTED\<close>. If poll \<open>n\<close>
  does, the call makes at most \<open>3 n + 14\<close> calls of its own and two more for each callback
  that \<^verbatim>\<open>tb.loop()\<close> runs. If no poll does, the call never comes back. \<^verbatim>\<open>setup\<close>
  comes back under the same condition. Each call into a collaborator is taken to return,
  and \<^verbatim>\<open>tb.loop()\<close> to run finitely many callbacks: the only loop of the sketch itself is
  the wait for the WiFi.
\<close>

theorem loop_returns_iff_wifi_connects:
  "((\<exists>out. loop e s = Some out) \<longleftrightarrow> (\<exists>n. WiFi_status_ret e n = WL_CONNECTED)) \<and>
   (WiFi_status_ret e n = WL_CONNECTED \<longrightarrow>
      (\<exists>out. loop e s = Some out \<and>
         length (since s (final out)) \<le> 3 * n + 2 * length (tb_loop_calls e) + 14)) \<and>
   ((\<forall>k. WiFi_status_ret e k \<noteq> WL_CONNECTED) \<longrightarrow> loop e s = None) \<and>
   ((\<exists>s'. sketch_setup status t = Some s') \<longleftrightarrow> (\<exists>n. status n = WL_CONNECTED))"
proof -
  have "(\<exists>out. loop e s = Some out) \<longleftrightarrow> (\<exists>n. WiFi_status_ret e n = WL_CONNECTED)"
    using loop_returns[of e _ s] loop_SomeD[of e s] reconnect_needs[of "WiFi_status_ret e" s]
    by blast
  then show ?thesis
    using loop_returns[of e n s] loop_None[of e s] sketch_setup_returns[of status t]
    by blast
qed

theorem loop_returns_iff_wifi_connects_witness:
  "WiFi_status_ret env_wifi_late 2 = WL_CONNECTED \<and>
   loop env_wifi_late subscribed =
     Some (Returned
       \<lparr>currentFWSent = True, updateRequestSent = True,
        trace =
          [WiFi_status WL_DISCONNECTED, Serial_println ''Connecting to AP ...'',
           WiFi_begin ''YOUR_WIFI_SSID'' ''YOUR_WIFI_PASSWORD'',
           WiFi_status WL_DISCONNECTED, Delay 500, Serial_print ''.'',
           WiFi_status WL_CONNECTED, Serial_println ''Connected to AP'',
           Tb_connected True, DigitalWrite LED_BUILTIN HIGH, Delay 1000,
           DigitalWrite LED_BUILTIN LOW, Delay 1000, Tb_loop]\<rparr>) \<and>
   length
     [WiFi_status WL_DISCONNECTED, Serial_println ''Connecting to AP ...'',
      WiFi_begin ''YOUR_WIFI_SSID'' ''YOUR_WIFI_PASSWORD'',
      WiFi_status WL_DISCONNECTED, Delay 500, Serial_print ''.'',
      WiFi_status WL_CONNECTED, Serial_println ''Connected to AP'',
      Tb_connected True, DigitalWrite LED_BUILTIN HIGH, Delay 1000,
      DigitalWrite LED_BUILTIN LOW, Delay 1000, Tb_loop] \<le> 3 * 2 + 14 \<and>
   (\<forall>k. WiFi_status_ret env_wifi_down k \<noteq> WL_CONNECTED) \<and>
   loop env_wifi_down subscribed = None"
proof -
  have h1: "WiFi_status_ret env_wifi_late 2 = WL_CONNECTED" by (simp add: sample_defs)
  have h2: "\<forall>k. WiFi_status_ret env_wifi_down k \<noteq> WL_CONNECTED" by (simp add: sample_defs)
  have h3: "loop env_wifi_late subscribed =
     Some (Returned
       \<lparr>currentFWSent = True, updateRequestSent = True,
        trace =
          [WiFi_status WL_DISCONNECTED, Serial_println ''Connecting to AP ...'',
           WiFi_begin ''YOUR_WIFI_SSID'' ''YOUR_WIFI_PASSWORD'',
           WiFi_status WL_DISCONNECTED, Delay 500, Serial_print ''.'',
           WiFi_status WL_CONNECTED, Serial_println ''Connected to AP'',
           Tb_connected True, DigitalWrite LED_BUILTIN HIGH, Delay 1000,
           DigitalWrite LED_BUILTIN LOW, Delay 1000, Tb_loop]\<rparr>)"
    by (simp add: sample_defs sketch_defs)
  from loop_returns_iff_wifi_connects[of env_wifi_down subscribed 0 wifi_up boot] h2
  have h4: "loop env_wifi_down subscribed = None" by blast
  from loop_returns_iff_wifi_connects[of env_wifi_late subscribed 2 wifi_up boot] h1 h3
  have "length (since subscribed (final (the (loop env_wifi_late subscribed)))) \<le>
          3 * 2 + 2 * length (tb_loop_calls env_wifi_late) + 14"
    by auto
  with h3 have h5: "length
     [WiFi_status WL_DISCONNECTED, Serial_println ''Connecting to AP ...'',
      WiFi_begin ''YOUR_WIFI_SSID'' ''YOUR_WIFI_PASSWORD'',
      WiFi_status WL_DISCONNECTED, Delay 500, Serial_print ''.'',
      WiFi_status WL_CONNECTED, Serial_println ''Connected to AP'',
      Tb_connected True, DigitalWrite LED_BUILTIN HIGH, Delay 1000,
      DigitalWrite LED_BUILTIN LOW, Delay 1000, Tb_loop] \<le> 3 * 2 + 14"
    by (simp add: since_def sample_defs)
  from h1 h2 h3 h4 h5 show ?thesis by blast
qed

subsection \<open>C7: the configuration handed to the subscription\<close>

text \<open>
  C7. The callback object holds the title \<^verbatim>\<open>ESPino32\<close>, the version \<^verbatim>\<open>1.0.0\<close>, a retry
  ceiling of 5 in 8 bits and a chunk size of 4096; a call of \<^verbatim>\<open>loop\<close> that subscribes hands
  over this object, and so does every subscription of every run of the sketch.
\<close>

theorem callback_configuration:
  "cb_title callback = ''ESPino32'' \<and> cb_version callback = ''1.0.0'' \<and>
   cb_retries callback = 5 \<and> unat (cb_retries callback) = 5 \<and>
   cb_packet_size callback = 4096 \<and> unat (cb_packet_size callback) = 4096 \<and>
   (loop e s = Some out \<longrightarrow>
      filter is_subscribe (since s (final out)) =
        (if up e \<and> \<not> updateRequestSent s
         then [Subscribe_Firmware_Update callback (Subscribe_Firmware_Update_ret e)]
         else [])) \<and>
   (arduino_main status es = Some out' \<and>
    Subscribe_Firmware_Update c r \<in> set (trace (final out')) \<longrightarrow> c = callback)"
proof -
  have "cb_title callback = ''ESPino32'' \<and> cb_version callback = ''1.0.0'' \<and>
   cb_retries callback = 5 \<and> unat (cb_retries callback) = 5 \<and>
   cb_packet_size callback = 4096 \<and> unat (cb_packet_size callback) = 4096"
    by (simp add: callback_def CURRENT_FIRMWARE_TITLE_def CURRENT_FIRMWARE_VERSION_def
        FIRMWARE_FAILURE_RETRIES_def FIRMWARE_PACKET_SIZE_def)
  then show ?thesis
    using loop_subscribes[of e s out] subscribes_callback[of status es out' c r]
    by blast
qed

theorem callback_configuration_witness:
  "arduino_main wifi_up [env_first] =
     Some (Returned
       \<lparr>currentFWSent = True, updateRequestSent = True,
        trace =
          [Serial_begin 115200, Delay 1000, Serial_println ''Connecting to AP ...'',
           WiFi_begin ''YOUR_WIFI_SSID'' ''YOUR_WIFI_PASSWORD'',
           WiFi_status WL_CONNECTED, Serial_println ''Connected to AP'',
           PinMode LED_BUILTIN OUTPUT,
           WiFi_status WL_CONNECTED, Tb_connected False,
           Serial_printf ''Connecting to: (%s) with token (%s)\<newline>''
             [''vsmqtt.space'', ''YOUR_DEVICE_ACCESS_TOKEN''],
           Tb_connect ''vsmqtt.space'' ''YOUR_DEVICE_ACCESS_TOKEN'' 8080 True,
           Firmware_Send_Info ''ESPino32'' ''1.0.0'' True,
           Firmware_Send_State ''UPDATED'' True,
           Serial_println ''Firwmare Update Subscription...'',
           Subscribe_Firmware_Update
             \<lparr>cb_progress = progressCallback_ptr, cb_updated = updatedCallback_ptr,
              cb_title = ''ESPino32'', cb_version = ''1.0.0'', cb_retries = 5,
              cb_packet_size = 4096\<rparr> True,
           DigitalWrite LED_BUILTIN HIGH, Delay 1000,
           DigitalWrite LED_BUILTIN LOW, Delay 1000, Tb_loop]\<rparr>) \<and>
   \<lparr>cb_progress = progressCallback_ptr, cb_updated = updatedCallback_ptr,
    cb_title = ''ESPino32'', cb_version = ''1.0.0'', cb_retries = 5,
    cb_packet_size = 4096\<rparr> = callback \<and>
   loop env_first boot =
     Some (Returned
       \<lparr>currentFWSent = True, updateRequestSent = True,
        trace =
          [WiFi_status WL_CONNECTED, Tb_connected False,
           Serial_printf ''Connecting to: (%s) with token (%s)\<newline>''
             [''vsmqtt.space'', ''YOUR_DEVICE_ACCESS_TOKEN''],
           Tb_connect ''vsmqtt.space'' ''YOUR_DEVICE_ACCESS_TOKEN'' 8080 True,
           Firmware_Send_Info ''ESPino32'' ''1.0.0'' True,
           Firmware_Send_State ''UPDATED'' True,
           Serial_println ''Firwmare Update Subscription...'',
           Subscribe_Firmware_Update callback True,
           DigitalWrite LED_BUILTIN HIGH, Delay 1000,
           DigitalWrite LED_BUILTIN LOW, Delay 1000, Tb_loop]\<rparr>) \<and>
   filter is_subscribe
     [WiFi_status WL_CONNECTED, Tb_connected False,
      Serial_printf ''Connecting to: (%s) with token (%s)\<newline>''
        [''vsmqtt.space'', ''YOUR_DEVICE_ACCESS_TOKEN''],
      Tb_connect ''vsmqtt.space'' ''YOUR_DEVICE_ACCESS_TOKEN'' 8080 True,
      Firmware_Send_Info ''ESPino32'' ''1.0.0'' True,
      Firmware_Send_State ''UPDATED'' True,
      Serial_println ''Firwmare Update Subscription...'',
      Subscribe_Firmware_Update callback True,
      DigitalWrite LED_BUILTIN HIGH, Delay 1000,
      DigitalWrite LED_BUILTIN LOW, Delay 1000, Tb_loop] =
   [Subscribe_Firmware_Update callback True]"
proof -
  let ?c = "\<lparr>cb_progress = progressCallback_ptr, cb_updated = updatedCallback_ptr,
              cb_title = ''ESPino32'', cb_version = ''1.0.0'', cb_retries = 5,
              cb_packet_size = 4096\<rparr>"
  let ?X = "\<lparr>currentFWSent = True, updateRequestSent = True,
        trace =
          [Serial_begin 115200, Delay 1000, Serial_println ''Connecting to AP ...'',
           WiFi_begin ''YOUR_WIFI_SSID'' ''YOUR_WIFI_PASSWORD'',
           WiFi_status WL_CONNECTED, Serial_println ''Connected to AP'',
           PinMode LED_BUILTIN OUTPUT,
           WiFi_status WL_CONNECTED, Tb_connected False,
           Serial_printf ''Connecting to: (%s) with token (%s)\<newline>''
             [''vsmqtt.space'', ''YOUR_DEVICE_ACCESS_TOKEN''],
           Tb_connect ''vsmqtt.space'' ''YOUR_DEVICE_ACCESS_TOKEN'' 8080 True,
           Firmware_Send_Info ''ESPino32'' ''1.0.0'' True,
           Firmware_Send_State ''UPDATED'' True,
           Serial_println ''Firwmare Update Subscription...'',
           Subscribe_Firmware_Update ?c True,
           DigitalWrite LED_BUILTIN HIGH, Delay 1000,
           DigitalWrite LED_BUILTIN LOW, Delay 1000, Tb_loop]\<rparr>"
  let ?ltr = "[WiFi_status WL_CONNECTED, Tb_connected False,
      Serial_printf ''Connecting to: (%s) with token (%s)\<newline>''
        [''vsmqtt.space'', ''YOUR_DEVICE_ACCESS_TOKEN''],
      Tb_connect ''vsmqtt.space'' ''YOUR_DEVICE_ACCESS_TOKEN'' 8080 True,
      Firmware_Send_Info ''ESPino32'' ''1.0.0'' True,
      Firmware_Send_State ''UPDATED'' True,
      Serial_println ''Firwmare Update Subscription...'',
      Subscribe_Firmware_Update callback True,
      DigitalWrite LED_BUILTIN HIGH, Delay 1000,
      DigitalWrite LED_BUILTIN LOW, Delay 1000, Tb_loop]"
  let ?L = "\<lparr>currentFWSent = True, updateRequestSent = True, trace = ?ltr\<rparr>"
  have h1: "arduino_main wifi_up [env_first] = Some (Returned ?X)"
    by (simp add: sample_defs sketch_defs)
  have h2: "Subscribe_Firmware_Update ?c True \<in> set (trace (final (Returned ?X)))"
    by simp
  have h3: "loop env_first boot = Some (Returned ?L)"
    by (simp add: sample_defs sketch_defs)
  have h4: "up env_first" "\<not> updateRequestSent boot"
    "Subscribe_Firmware_Update_ret env_first"
    by (simp_all add: sample_defs up_def)
  have s: "since boot ?L = ?ltr" by (simp add: since_def boot_def)
  from callback_configuration[of env_first boot "Returned ?L" wifi_up "[env_first]"
      "Returned ?X" ?c True] h1 h2 h3 h4 s
  have "?c = callback" "filter is_subscribe ?ltr = [Subscribe_Firmware_Update callback True]"
    by simp_all
  with h1 h3 show ?thesis by blast
qed

subsection \<open>C8: errors neither restart the device nor change the flags\<close>



subsection \<open>C9: \<^verbatim>\<open>reconnect\<close> returns true or does not return\<close>

text \<open>
  C9. Whatever the WiFi status answers, a \<^verbatim>\<open>reconnect\<close> that returns returns true; it
  returns iff some poll answers \<^verbatim>\<open>WL_CONNECTED\<close>, and at once when the first poll does.
  So the early return of line 71 is never taken: every call of \<^verbatim>\<open>loop\<close> that comes back
  has gone on to ask \<^verbatim>\<open>tb.connected()\<close> in line 74.
\<close>

theorem reconnect_always_true:
  "(reconnect status s = Some (r, s') \<longrightarrow> r) \<and>
   ((\<exists>s'. reconnect status s = Some (True, s')) \<longleftrightarrow> (\<exists>n. status n = WL_CONNECTED)) \<and>
   (online 0 = WL_CONNECTED \<longrightarrow>
      reconnect online s = Some (True, emit (WiFi_status WL_CONNECTED) s)) \<and>
   (loop e t = Some out \<longrightarrow> Tb_connected (Tb_connected_ret e) \<in> set (since t (final out)))"
proof -
  have "reconnect status s = Some (r, s') \<longrightarrow> r"
    using reconnect_frame[of status s r s'] by blast
  moreover have "(\<exists>s'. reconnect status s = Some (True, s')) \<longleftrightarrow> (\<exists>n. status n = WL_CONNECTED)"
    using reconnect_needs[of status s] reconnect_returns[of status _ s] by blast
  moreover have "online 0 = WL_CONNECTED \<longrightarrow>
      reconnect online s = Some (True, emit (WiFi_status WL_CONNECTED) s)"
    by (simp add: reconnect_def)
  moreover have "loop e t = Some out \<longrightarrow>
      Tb_connected (Tb_connected_ret e) \<in> set (since t (final out))"
    using loop_checks_server[of e t out] by blast
  ultimately show ?thesis by blast
qed

theorem reconnect_always_true_witness:
  "reconnect wifi_late boot =
     Some (True,
       \<lparr>currentFWSent = False, updateRequestSent = False,
        trace =
          [WiFi_status WL_DISCONNECTED, Serial_println ''Connecting to AP ...'',
           WiFi_begin ''YOUR_WIFI_SSID'' ''YOUR_WIFI_PASSWORD'',
           WiFi_status WL_DISCONNECTED, Delay 500, Serial_print ''.'',
           WiFi_status WL_CONNECTED, Serial_println ''Connected to AP'']\<rparr>) \<and>
   wifi_up 0 = WL_CONNECTED \<and>
   reconnect wifi_up boot = Some (True, emit (WiFi_status WL_CONNECTED) boot) \<and>
   loop env_update_failed subscribed =
     Some (Returned
       \<lparr>currentFWSent = True, updateRequestSent = True,
        trace =
          [WiFi_status WL_CONNECTED, Tb_connected True,
           DigitalWrite LED_BUILTIN HIGH, Delay 1000,
           DigitalWrite LED_BUILTIN LOW, Delay 1000, Tb_loop,
           Serial_println ''Downloading firmware failed'']\<rparr>)"
proof -
  let ?X = "\<lparr>currentFWSent = False, updateRequestSent = False,
        trace =
          [WiFi_status WL_DISCONNECTED, Serial_println ''Connecting to AP ...'',
           WiFi_begin ''YOUR_WIFI_SSID'' ''YOUR_WIFI_PASSWORD'',
           WiFi_status WL_DISCONNECTED, Delay 500, Serial_print ''.'',
           WiFi_status WL_CONNECTED, Serial_println ''Connected to AP'']\<rparr>"
  let ?Y = "\<lparr>currentFWSent = True, updateRequestSent = True,
        trace =
          [WiFi_status WL_CONNECTED, Tb_connected True,
           DigitalWrite LED_BUILTIN HIGH, Delay 1000,
           DigitalWrite LED_BUILTIN LOW, Delay 1000, Tb_loop,
           Serial_println ''Downloading firmware failed'']\<rparr>"
  have h1: "reconnect wifi_late boot = Some (True, ?X)"
    by (simp add: sample_defs sketch_defs)
  have h2: "wifi_up 0 = WL_CONNECTED" by (simp add: wifi_up_def)
  have h3: "loop env_update_failed subscribed = Some (Returned ?Y)"
    by (simp add: sample_defs sketch_defs)
  from reconnect_always_true[of wifi_late boot True ?X wifi_up env_update_failed subscribed
      "Returned ?Y"] h2
  have "reconnect wifi_up boot = Some (True, emit (WiFi_status WL_CONNECTED) boot)" by blast
  with h1 h2 h3 show ?thesis by blast
qed

subsection \<open>C10: the two flags only ever go from false to true\<close>

text \<open>
  C10. Both flags are false at the start and after \<^verbatim>\<open>setup\<close>. A call of \<^verbatim>\<open>loop\<close> leaves
  a set flag set, and sets an unset flag exactly when it reaches the server and the guarded
  call (for \<^verbatim>\<open>currentFWSent\<close>, the conjunction of the two sends) answers true. From a state
  in which a flag is set, no run of later calls of \<^verbatim>\<open>loop\<close> resets it or makes its guarded
  call again.

  The flags are tied to the calls the trace records. A call of \<^verbatim>\<open>loop\<close> makes the guarded
  sends, or the guarded subscription, exactly when it reaches the server with the flag unset.
  After a call of \<^verbatim>\<open>loop\<close>, and after any run of such calls, \<^verbatim>\<open>currentFWSent\<close> is set iff it
  was set before or a \<^verbatim>\<open>Firmware_Send_State\<close> that returned true has been recorded since
  (by C3 it follows a \<^verbatim>\<open>Firmware_Send_Info\<close> that returned true), and \<^verbatim>\<open>updateRequestSent\<close>
  is set iff it was set before or a \<^verbatim>\<open>Subscribe_Firmware_Update\<close> that returned true has been
  recorded since. In a run from the start each flag is set iff the trace holds such a call.
\<close>

theorem flags_monotone:
  "\<not> currentFWSent boot \<and> \<not> updateRequestSent boot \<and>
   (sketch_setup status boot = Some s0 \<longrightarrow> \<not> currentFWSent s0 \<and> \<not> updateRequestSent s0) \<and>
   (loop e s = Some out \<longrightarrow>
      currentFWSent (final out) =
        (currentFWSent s \<or> up e \<and> Firmware_Send_Info_ret e \<and> Firmware_Send_State_ret e) \<and>
      updateRequestSent (final out) =
        (updateRequestSent s \<or> up e \<and> Subscribe_Firmware_Update_ret e)) \<and>
   (loops es t = Some out' \<and> currentFWSent t \<longrightarrow>
      currentFWSent (final out') \<and> filter is_fw_send (since t (final out')) = []) \<and>
   (loops es' t' = Some out'' \<and> updateRequestSent t' \<longrightarrow>
      updateRequestSent (final out'') \<and> filter is_subscribe (since t' (final out'')) = []) \<and>
   (loop e s = Some out \<longrightarrow>
      filter is_fw_send (since s (final out)) =
        (if up e \<and> \<not> currentFWSent s
         then Firmware_Send_Info CURRENT_FIRMWARE_TITLE CURRENT_FIRMWARE_VERSION
                (Firmware_Send_Info_ret e) #
              (if Firmware_Send_Info_ret e
               then [Firmware_Send_State FW_STATE_UPDATED (Firmware_Send_State_ret e)] else [])
         else []) \<and>
      filter is_subscribe (since s (final out)) =
        (if up e \<and> \<not> updateRequestSent s
         then [Subscribe_Firmware_Update callback (Subscribe_Firmware_Update_ret e)]
         else []) \<and>
      currentFWSent (final out) =
        (currentFWSent s \<or>
         Firmware_Send_State FW_STATE_UPDATED True \<in> set (since s (final out))) \<and>
      updateRequestSent (final out) =
        (updateRequestSent s \<or>
         Subscribe_Firmware_Update callback True \<in> set (since s (final out)))) \<and>
   (loops rs u = Some v \<longrightarrow>
      currentFWSent (final v) =
        (currentFWSent u \<or>
         Firmware_Send_State FW_STATE_UPDATED True \<in> set (since u (final v))) \<and>
      updateRequestSent (final v) =
        (updateRequestSent u \<or>
         Subscribe_Firmware_Update callback True \<in> set (since u (final v)))) \<and>
   (arduino_main polls cs = Some w \<longrightarrow>
      currentFWSent (final w) =
        (Firmware_Send_State FW_STATE_UPDATED True \<in> set (trace (final w))) \<and>
      updateRequestSent (final w) =
        (Subscribe_Firmware_Update callback True \<in> set (trace (final w))))"
proof -
  have a: "\<not> currentFWSent boot \<and> \<not> updateRequestSent boot" by (simp add: boot_def)
  from a
  have b: "sketch_setup status boot = Some s0 \<longrightarrow>
             \<not> currentFWSent s0 \<and> \<not> updateRequestSent s0"
    using sketch_setup_frame[of status boot s0] by blast
  have c: "loop e s = Some out \<longrightarrow>
      currentFWSent (final out) =
        (currentFWSent s \<or> up e \<and> Firmware_Send_Info_ret e \<and> Firmware_Send_State_ret e) \<and>
      updateRequestSent (final out) =
        (updateRequestSent s \<or> up e \<and> Subscribe_Firmware_Update_ret e)"
    using loop_flags(1,2)[of e s out] by blast
  have d: "loops es t = Some out' \<and> currentFWSent t \<longrightarrow>
      currentFWSent (final out') \<and> filter is_fw_send (since t (final out')) = []"
    using loops_fw_sent[of es t out'] by blast
  have f: "loops es' t' = Some out'' \<and> updateRequestSent t' \<longrightarrow>
      updateRequestSent (final out'') \<and> filter is_subscribe (since t' (final out'')) = []"
    using loops_subscribed[of es' t' out''] by blast
  have g: "loop e s = Some out \<longrightarrow>
      filter is_fw_send (since s (final out)) =
        (if up e \<and> \<not> currentFWSent s
         then Firmware_Send_Info CURRENT_FIRMWARE_TITLE CURRENT_FIRMWARE_VERSION
                (Firmware_Send_Info_ret e) #
              (if Firmware_Send_Info_ret e
               then [Firmware_Send_State FW_STATE_UPDATED (Firmware_Send_State_ret e)] else [])
         else []) \<and>
      filter is_subscribe (since s (final out)) =
        (if up e \<and> \<not> updateRequestSent s
         then [Subscribe_Firmware_Update callback (Subscribe_Firmware_Update_ret e)]
         else [])"
    using loop_fw_sends[of e s out] loop_subscribes[of e s out] by blast
  have h: "loop e s = Some out \<longrightarrow>
      currentFWSent (final out) =
        (currentFWSent s \<or>
         Firmware_Send_State FW_STATE_UPDATED True \<in> set (since s (final out))) \<and>
      updateRequestSent (final out) =
        (updateRequestSent s \<or>
         Subscribe_Firmware_Update callback True \<in> set (since s (final out)))"
    using loop_flag_calls[of e s out] by blast
  have i: "loops rs u = Some v \<longrightarrow>
      currentFWSent (final v) =
        (currentFWSent u \<or>
         Firmware_Send_State FW_STATE_UPDATED True \<in> set (since u (final v))) \<and>
      updateRequestSent (final v) =
        (updateRequestSent u \<or>
         Subscribe_Firmware_Update callback True \<in> set (since u (final v)))"
    using loops_flag_calls[of rs u v] by blast
  have j: "arduino_main polls cs = Some w \<longrightarrow>
      currentFWSent (final w) =
        (Firmware_Send_State FW_STATE_UPDATED True \<in> set (trace (final w))) \<and>
      updateRequestSent (final w) =
        (Subscribe_Firmware_Update callback True \<in> set (trace (final w)))"
    using arduino_main_flag_calls[of polls cs w] by blast
  from a b c d f g h i j show ?thesis by blast
qed

theorem flags_monotone_witness:
  "sketch_setup wifi_up boot =
     Some \<lparr>currentFWSent = False, updateRequestSent = False,
        trace =
          [Serial_begin 115200, Delay 1000, Serial_println ''Connecting to AP ...'',
           WiFi_begin ''YOUR_WIFI_SSID'' ''YOUR_WIFI_PASSWORD'',
           WiFi_status WL_CONNECTED, Serial_println ''Connected to AP'',
           PinMode LED_BUILTIN OUTPUT]\<rparr> \<and>
   loop env_update_failed subscribed =
     Some (Returned
       \<lparr>currentFWSent = True, updateRequestSent = True,
        trace =
          [WiFi_status WL_CONNECTED, Tb_connected True,
           DigitalWrite LED_BUILTIN HIGH, Delay 1000,
           DigitalWrite LED_BUILTIN LOW, Delay 1000, Tb_loop,
           Serial_println ''Downloading firmware failed'']\<rparr>) \<and>
   loops [env_steady, env_update_failed] subscribed =
     Some (Returned
       \<lparr>currentFWSent = True, updateRequestSent = True,
        trace =
          [WiFi_status WL_CONNECTED, Tb_connected True,
           DigitalWrite LED_BUILTIN HIGH, Delay 1000,
           DigitalWrite LED_BUILTIN LOW, Delay 1000, Tb_loop,
           WiFi_status WL_CONNECTED, Tb_connected True,
           DigitalWrite LED_BUILTIN HIGH, Delay 1000,
           DigitalWrite LED_BUILTIN LOW, Delay 1000, Tb_loop,
           Serial_println ''Downloading firmware failed'']\<rparr>) \<and>
   currentFWSent subscribed \<and> updateRequestSent subscribed \<and>
   loop env_state_fails boot =
     Some (Returned
       \<lparr>currentFWSent = False, updateRequestSent = True,
        trace =
          [WiFi_status WL_CONNECTED, Tb_connected False,
           Serial_printf ''Connecting to: (%s) with token (%s)\<newline>''
             [''vsmqtt.space'', ''YOUR_DEVICE_ACCESS_TOKEN''],
           Tb_connect ''vsmqtt.space'' ''YOUR_DEVICE_ACCESS_TOKEN'' 8080 True,
           Firmware_Send_Info ''ESPino32'' ''1.0.0'' True,
           Firmware_Send_State ''UPDATED'' False,
           Serial_println ''Firwmare Update Subscription...'',
           Subscribe_Firmware_Update callback True,
           DigitalWrite LED_BUILTIN HIGH, Delay 1000,
           DigitalWrite LED_BUILTIN LOW, Delay 1000, Tb_loop]\<rparr>) \<and>
   filter is_fw_send
     [WiFi_status WL_CONNECTED, Tb_connected False,
      Serial_printf ''Connecting to: (%s) with token (%s)\<newline>''
        [''vsmqtt.space'', ''YOUR_DEVICE_ACCESS_TOKEN''],
      Tb_connect ''vsmqtt.space'' ''YOUR_DEVICE_ACCESS_TOKEN'' 8080 True,
      Firmware_Send_Info ''ESPino32'' ''1.0.0'' True,
      Firmware_Send_State ''UPDATED'' False,
      Serial_println ''Firwmare Update Subscription...'',
      Subscribe_Firmware_Update callback True,
      DigitalWrite LED_BUILTIN HIGH, Delay 1000,
      DigitalWrite LED_BUILTIN LOW, Delay 1000, Tb_loop] =
   [Firmware_Send_Info ''ESPino32'' ''1.0.0'' True, Firmware_Send_State ''UPDATED'' False] \<and>
   Firmware_Send_State ''UPDATED'' True \<notin> set
     [WiFi_status WL_CONNECTED, Tb_connected False,
      Serial_printf ''Connecting to: (%s) with token (%s)\<newline>''
        [''vsmqtt.space'', ''YOUR_DEVICE_ACCESS_TOKEN''],
      Tb_connect ''vsmqtt.space'' ''YOUR_DEVICE_ACCESS_TOKEN'' 8080 True,
      Firmware_Send_Info ''ESPino32'' ''1.0.0'' True,
      Firmware_Send_State ''UPDATED'' False,
      Serial_println ''Firwmare Update Subscription...'',
      Subscribe_Firmware_Update callback True,
      DigitalWrite LED_BUILTIN HIGH, Delay 1000,
      DigitalWrite LED_BUILTIN LOW, Delay 1000, Tb_loop] \<and>
   Subscribe_Firmware_Update callback True \<in> set
     [WiFi_status WL_CONNECTED, Tb_connected False,
      Serial_printf ''Connecting to: (%s) with token (%s)\<newline>''
        [''vsmqtt.space'', ''YOUR_DEVICE_ACCESS_TOKEN''],
      Tb_connect ''vsmqtt.space'' ''YOUR_DEVICE_ACCESS_TOKEN'' 8080 True,
      Firmware_Send_Info ''ESPino32'' ''1.0.0'' True,
      Firmware_Send_State ''UPDATED'' False,
      Serial_println ''Firwmare Update Subscription...'',
      Subscribe_Firmware_Update callback True,
      DigitalWrite LED_BUILTIN HIGH, Delay 1000,
      DigitalWrite LED_BUILTIN LOW, Delay 1000, Tb_loop] \<and>
   loops [env_state_fails, env_steady] boot =
     Some (Returned
       \<lparr>currentFWSent = True, updateRequestSent = True,
        trace =
          [WiFi_status WL_CONNECTED, Tb_connected False,
           Serial_printf ''Connecting to: (%s) with token (%s)\<newline>''
             [''vsmqtt.space'', ''YOUR_DEVICE_ACCESS_TOKEN''],
           Tb_connect ''vsmqtt.space'' ''YOUR_DEVICE_ACCESS_TOKEN'' 8080 True,
           Firmware_Send_Info ''ESPino32'' ''1.0.0'' True,
           Firmware_Send_State ''UPDATED'' False,
           Serial_println ''Firwmare Update Subscription...'',
           Subscribe_Firmware_Update callback True,
           DigitalWrite LED_BUILTIN HIGH, Delay 1000,
           DigitalWrite LED_BUILTIN LOW, Delay 1000, Tb_loop,
           WiFi_status WL_CONNECTED, Tb_connected True,
           Firmware_Send_Info ''ESPino32'' ''1.0.0'' True,
           Firmware_Send_State ''UPDATED'' True,
           DigitalWrite LED_BUILTIN HIGH, Delay 1000,
           DigitalWrite LED_BUILTIN LOW, Delay 1000, Tb_loop]\<rparr>) \<and>
   Firmware_Send_State ''UPDATED'' True \<in> set
     [WiFi_status WL_CONNECTED, Tb_connected False,
      Serial_printf ''Connecting to: (%s) with token (%s)\<newline>''
        [''vsmqtt.space'', ''YOUR_DEVICE_ACCESS_TOKEN''],
      Tb_connect ''vsmqtt.space'' ''YOUR_DEVICE_ACCESS_TOKEN'' 8080 True,
      Firmware_Send_Info ''ESPino32'' ''1.0.0'' True,
      Firmware_Send_State ''UPDATED'' False,
      Serial_println ''Firwmare Update Subscription...'',
      Subscribe_Firmware_Update callback True,
      DigitalWrite LED_BUILTIN HIGH, Delay 1000,
      DigitalWrite LED_BUILTIN LOW, Delay 1000, Tb_loop,
      WiFi_status WL_CONNECTED, Tb_connected True,
      Firmware_Send_Info ''ESPino32'' ''1.0.0'' True,
      Firmware_Send_State ''UPDATED'' True,
      DigitalWrite LED_BUILTIN HIGH, Delay 1000,
      DigitalWrite LED_BUILTIN LOW, Delay 1000, Tb_loop] \<and>
   arduino_main wifi_up [env_first] =
     Some (Returned
       \<lparr>currentFWSent = True, updateRequestSent = True,
        trace =
          [Serial_begin 115200, Delay 1000, Serial_println ''Connecting to AP ...'',
           WiFi_begin ''YOUR_WIFI_SSID'' ''YOUR_WIFI_PASSWORD'',
           WiFi_status WL_CONNECTED, Serial_println ''Connected to AP'',
           PinMode LED_BUILTIN OUTPUT,
           WiFi_status WL_CONNECTED, Tb_connected False,
           Serial_printf ''Connecting to: (%s) with token (%s)\<newline>''
             [''vsmqtt.space'', ''YOUR_DEVICE_ACCESS_TOKEN''],
           Tb_connect ''vsmqtt.space'' ''YOUR_DEVICE_ACCESS_TOKEN'' 8080 True,
           Firmware_Send_Info ''ESPino32'' ''1.0.0'' True,
           Firmware_Send_State ''UPDATED'' True,
           Serial_println ''Firwmare Update Subscription...'',
           Subscribe_Firmware_Update callback True,
           DigitalWrite LED_BUILTIN HIGH, Delay 1000,
           DigitalWrite LED_BUILTIN LOW, Delay 1000, Tb_loop]\<rparr>) \<and>
   Firmware_Send_State ''UPDATED'' True \<in> set
     [Serial_begin 115200, Delay 1000, Serial_println ''Connecting to AP ...'',
      WiFi_begin ''YOUR_WIFI_SSID'' ''YOUR_WIFI_PASSWORD'',
      WiFi_status WL_CONNECTED, Serial_println ''Connected to AP'',
      PinMode LED_BUILTIN OUTPUT,
      WiFi_status WL_CONNECTED, Tb_connected False,
      Serial_printf ''Connecting to: (%s) with token (%s)\<newline>''
        [''vsmqtt.space'', ''YOUR_DEVICE_ACCESS_TOKEN''],
      Tb_connect ''vsmqtt.space'' ''YOUR_DEVICE_ACCESS_TOKEN'' 8080 True,
      Firmware_Send_Info ''ESPino32'' ''1.0.0'' True,
      Firmware_Send_State ''UPDATED'' True,
      Serial_println ''Firwmare Update Subscription...'',
      Subscribe_Firmware_Update callback True,
      DigitalWrite LED_BUILTIN HIGH, Delay 1000,
      DigitalWrite LED_BUILTIN LOW, Delay 1000, Tb_loop] \<and>
   Subscribe_Firmware_Update callback True \<in> set
     [Serial_begin 115200, Delay 1000, Serial_println ''Connecting to AP ...'',
      WiFi_begin ''YOUR_WIFI_SSID'' ''YOUR_WIFI_PASSWORD'',
      WiFi_status WL_CONNECTED, Serial_println ''Connected to AP'',
      PinMode LED_BUILTIN OUTPUT,
      WiFi_status WL_CONNECTED, Tb_connected False,
      Serial_printf ''Connecting to: (%s) with token (%s)\<newline>''
        [''vsmqtt.space'', ''YOUR_DEVICE_ACCESS_TOKEN''],
      Tb_connect ''vsmqtt.space'' ''YOUR_DEVICE_ACCESS_TOKEN'' 8080 True,
      Firmware_Send_Info ''ESPino32'' ''1.0.0'' True,
      Firmware_Send_State ''UPDATED'' True,
      Serial_println ''Firwmare Update Subscription...'',
      Subscribe_Firmware_Update callback True,
      DigitalWrite LED_BUILTIN HIGH, Delay 1000,
      DigitalWrite LED_BUILTIN LOW, Delay 1000, Tb_loop]"
proof -
  let ?ftr = "[WiFi_status WL_CONNECTED, Tb_connected False,
      Serial_printf ''Connecting to: (%s) with token (%s)\<newline>''
        [''vsmqtt.space'', ''YOUR_DEVICE_ACCESS_TOKEN''],
      Tb_connect ''vsmqtt.space'' ''YOUR_DEVICE_ACCESS_TOKEN'' 8080 True,
      Firmware_Send_Info ''ESPino32'' ''1.0.0'' True,
      Firmware_Send_State ''UPDATED'' False,
      Serial_println ''Firwmare Update Subscription...'',
      Subscribe_Firmware_Update callback True,
      DigitalWrite LED_BUILTIN HIGH, Delay 1000,
      DigitalWrite LED_BUILTIN LOW, Delay 1000, Tb_loop]"
  let ?F = "\<lparr>currentFWSent = False, updateRequestSent = True, trace = ?ftr\<rparr>"
  let ?gtr = "[WiFi_status WL_CONNECTED, Tb_connected False,
      Serial_printf ''Connecting to: (%s) with token (%s)\<newline>''
        [''vsmqtt.space'', ''YOUR_DEVICE_ACCESS_TOKEN''],
      Tb_connect ''vsmqtt.space'' ''YOUR_DEVICE_ACCESS_TOKEN'' 8080 True,
      Firmware_Send_Info ''ESPino32'' ''1.0.0'' True,
      Firmware_Send_State ''UPDATED'' False,
      Serial_println ''Firwmare Update Subscription...'',
      Subscribe_Firmware_Update callback True,
      DigitalWrite LED_BUILTIN HIGH, Delay 1000,
      DigitalWrite LED_BUILTIN LOW, Delay 1000, Tb_loop,
      WiFi_status WL_CONNECTED, Tb_connected True,
      Firmware_Send_Info ''ESPino32'' ''1.0.0'' True,
      Firmware_Send_State ''UPDATED'' True,
      DigitalWrite LED_BUILTIN HIGH, Delay 1000,
      DigitalWrite LED_BUILTIN LOW, Delay 1000, Tb_loop]"
  let ?G = "\<lparr>currentFWSent = True, updateRequestSent = True, trace = ?gtr\<rparr>"
  let ?mtr = "[Serial_begin 115200, Delay 1000, Serial_println ''Connecting to AP ...'',
      WiFi_begin ''YOUR_WIFI_SSID'' ''YOUR_WIFI_PASSWORD'',
      WiFi_status WL_CONNECTED, Serial_println ''Connected to AP'',
      PinMode LED_BUILTIN OUTPUT,
      WiFi_status WL_CONNECTED, Tb_connected False,
      Serial_printf ''Connecting to: (%s) with token (%s)\<newline>''
        [''vsmqtt.space'', ''YOUR_DEVICE_ACCESS_TOKEN''],
      Tb_connect ''vsmqtt.space'' ''YOUR_DEVICE_ACCESS_TOKEN'' 8080 True,
      Firmware_Send_Info ''ESPino32'' ''1.0.0'' True,
      Firmware_Send_State ''UPDATED'' True,
      Serial_println ''Firwmare Update Subscription...'',
      Subscribe_Firmware_Update callback True,
      DigitalWrite LED_BUILTIN HIGH, Delay 1000,
      DigitalWrite LED_BUILTIN LOW, Delay 1000, Tb_loop]"
  let ?M = "\<lparr>currentFWSent = True, updateRequestSent = True, trace = ?mtr\<rparr>"
  let ?S = "\<lparr>currentFWSent = False, updateRequestSent = False,
        trace =
          [Serial_begin 115200, Delay 1000, Serial_println ''Connecting to AP ...'',
           WiFi_begin ''YOUR_WIFI_SSID'' ''YOUR_WIFI_PASSWORD'',
           WiFi_status WL_CONNECTED, Serial_println ''Connected to AP'',
           PinMode LED_BUILTIN OUTPUT]\<rparr>"
  let ?X = "\<lparr>currentFWSent = True, updateRequestSent = True,
        trace =
          [WiFi_status WL_CONNECTED, Tb_connected True,
           DigitalWrite LED_BUILTIN HIGH, Delay 1000,
           DigitalWrite LED_BUILTIN LOW, Delay 1000, Tb_loop,
           Serial_println ''Downloading firmware failed'']\<rparr>"
  let ?Y = "\<lparr>currentFWSent = True, updateRequestSent = True,
        trace =
          [WiFi_status WL_CONNECTED, Tb_connected True,
           DigitalWrite LED_BUILTIN HIGH, Delay 1000,
           DigitalWrite LED_BUILTIN LOW, Delay 1000, Tb_loop,
           WiFi_status WL_CONNECTED, Tb_connected True,
           DigitalWrite LED_BUILTIN HIGH, Delay 1000,
           DigitalWrite LED_BUILTIN LOW, Delay 1000, Tb_loop,
           Serial_println ''Downloading firmware failed'']\<rparr>"
  have h1: "sketch_setup wifi_up boot = Some ?S" by (simp add: sample_defs sketch_defs)
  have h2: "loop env_update_failed subscribed = Some (Returned ?X)"
    by (simp add: sample_defs sketch_defs)
  have h3: "loops [env_steady, env_update_failed] subscribed = Some (Returned ?Y)"
    by (simp add: sample_defs sketch_defs)
  have h4: "currentFWSent subscribed" "updateRequestSent subscribed"
    by (simp_all add: subscribed_def)
  have h5: "loop env_state_fails boot = Some (Returned ?F)"
    by (simp add: sample_defs sketch_defs)
  have h6: "loops [env_state_fails, env_steady] boot = Some (Returned ?G)"
    by (simp add: sample_defs sketch_defs)
  have h7: "arduino_main wifi_up [env_first] = Some (Returned ?M)"
    by (simp add: sample_defs sketch_defs)
  have h8: "up env_state_fails" "Firmware_Send_Info_ret env_state_fails"
    "\<not> Firmware_Send_State_ret env_state_fails" "\<not> currentFWSent boot"
    by (simp_all add: sample_defs up_def)
  have sf: "since boot ?F = ?ftr" and sg: "since boot ?G = ?gtr"
    by (simp_all add: since_def boot_def)
  from flags_monotone[of wifi_up ?S env_state_fails boot "Returned ?F"
      "[env_steady, env_update_failed]" subscribed "Returned ?Y"
      "[env_steady, env_update_failed]" subscribed "Returned ?Y"
      "[env_state_fails, env_steady]" boot "Returned ?G"
      wifi_up "[env_first]" "Returned ?M"] h1 h5 h6 h7 h8 sf sg
  have k: "filter is_fw_send ?ftr =
      [Firmware_Send_Info CURRENT_FIRMWARE_TITLE CURRENT_FIRMWARE_VERSION True,
       Firmware_Send_State FW_STATE_UPDATED False]"
    "Firmware_Send_State FW_STATE_UPDATED True \<notin> set ?ftr"
    "Subscribe_Firmware_Update callback True \<in> set ?ftr"
    "Firmware_Send_State FW_STATE_UPDATED True \<in> set ?gtr"
    "Firmware_Send_State FW_STATE_UPDATED True \<in> set ?mtr"
    "Subscribe_Firmware_Update callback True \<in> set ?mtr"
    by simp_all
  from flags_monotone[of wifi_up ?S env_update_failed subscribed "Returned ?X"
      "[env_steady, env_update_failed]" subscribed "Returned ?Y"
      "[env_steady, env_update_failed]" subscribed "Returned ?Y"
      "[env_state_fails, env_steady]" boot "Returned ?G"
      wifi_up "[env_first]" "Returned ?M"] h1 h2 h3 h4
  have "currentFWSent subscribed \<and> updateRequestSent subscribed" by simp
  with h1 h2 h3 h5 h6 h7 k show ?thesis
    by (simp add: CURRENT_FIRMWARE_TITLE_def CURRENT_FIRMWARE_VERSION_def
        FW_STATE_UPDATED_def)
qed

end
